theory Spec2Isabelle
  imports Main "HOL-Library.AList"
begin

section \<open>Time\<close>

text \<open>
  A naive Python \<open>datetime\<close> is the number of microseconds since
  \<open>datetime.min\<close> (midnight of 1 January of year 1), and a \<open>timedelta\<close> is a
  difference of two of them. \<open>timedelta(days=n)\<close> is \<open>n\<close> days, and the attribute
  \<open>.days\<close> of a \<open>timedelta\<close> is its floor division by one day.
  A date written to disk is an ISO-8601 string; it is represented by the instant the
  string denotes, so \<open>fromisoformat\<close> is the identity on it,
  \<open>isoformat()\<close> keeps the instant and \<open>isoformat(timespec='seconds')\<close> drops the
  microseconds.
\<close>

type_synonym temps = int

definition jour :: int where
  "jour = 86400000000"

definition timedelta_days :: "int \<Rightarrow> int" where
  "timedelta_days n = n * jour"

definition days :: "int \<Rightarrow> int" where
  "days d = d div jour"

definition isoformat_seconds :: "temps \<Rightarrow> temps" where
  "isoformat_seconds t = t - t mod 1000000"

text \<open>
  The dates \<open>datetime\<close> can hold run from \<open>datetime.min\<close> to \<open>datetime.max\<close>, the last
  microsecond of year 9999 (day 3652059), and a \<open>timedelta\<close> holds at most
  999999999 days either way. \<open>ajouter_jours t n\<close> is \<open>t + timedelta(days=n)\<close>:
  \<open>None\<close> stands for the \<open>OverflowError\<close> Python raises when the day count or the
  sum is out of range. The range is checked where a day count given by the caller is
  added to a date: the duration of \<open>emprunter\<close> and the extension of \<open>renouveler\<close>.
  The expiry of a suspension, which the program computes from clock readings and
  stored dates, is in range for every clock before year 2500 and is not checked.
\<close>

definition datetime_min :: temps where
  "datetime_min = 0"

definition datetime_max :: temps where
  "datetime_max = 315537897599999999"

definition ajouter_jours :: "temps \<Rightarrow> int \<Rightarrow> temps option" where
  "ajouter_jours t n =
     (if n < - 999999999 \<or> 999999999 < n then None
      else if t + timedelta_days n < datetime_min \<or> datetime_max < t + timedelta_days n then None
      else Some (t + timedelta_days n))"

section \<open>Enumerations (models/enums.py)\<close>

datatype TypeUtilisateur = ETUDIANT | PROFESSEUR | EXTERNE

fun limite_emprunt :: "TypeUtilisateur \<Rightarrow> int" where
  "limite_emprunt ETUDIANT = 3"
| "limite_emprunt PROFESSEUR = 10"
| "limite_emprunt EXTERNE = 5"

datatype StatutLivre = DISPONIBLE | EMPRUNTE | RESERVE | PERDU | ENDOMMAGE | INDISPONIBLE

section \<open>Errors\<close>

text \<open>
  One constructor for each exception the modelled code raises:
  \<^item> \<open>Utilisateur_introuvable\<close>, \<open>Livre_introuvable\<close>, \<open>Code_barres_invalide\<close>,
    \<open>Code_barres_deja_utilise\<close>, \<open>Livre_deja_disponible\<close>, \<open>Reservation_en_cours\<close>,
    \<open>Matricule_requis\<close>, \<open>ISBN_requis\<close>, \<open>Notification_refusee\<close> and
    \<open>Confirmation_refusee\<close> are the \<open>ValueError\<close>s, told apart by their message;
  \<^item> \<open>Utilisateur_suspendu\<close> is \<open>EmpruntError("Utilisateur suspendu")\<close>;
  \<^item> \<open>LimiteAtteinte\<close>, \<open>ExemplaireIndisponible\<close> and \<open>EmpruntNonTrouve\<close> are the
    exception classes of \<open>services/gestion_emprunt.py\<close>;
  \<^item> \<open>OverflowError\<close> is the built-in exception of a date out of range.
\<close>

datatype erreur =
    Utilisateur_introuvable
  | Utilisateur_suspendu
  | LimiteAtteinte
  | Livre_introuvable
  | ExemplaireIndisponible
  | Code_barres_invalide
  | Code_barres_deja_utilise
  | EmpruntNonTrouve
  | Livre_deja_disponible
  | Reservation_en_cours
  | Matricule_requis
  | ISBN_requis
  | Notification_refusee
  | Confirmation_refusee
  | OverflowError

section \<open>Validators (utils/clean.py)\<close>

text \<open>
  \<open>valider_code_barre\<close> accepts exactly the strings of length five
  (\<open>nettoyer_chaine\<close> of a string is never \<open>None\<close>).
\<close>

definition valider_code_barre :: "string \<Rightarrow> bool" where
  "valider_code_barre code_barre = (length code_barre = 5)"

section \<open>Reservation (models/reservation.py)\<close>

datatype StatutReservation = STATUT_EN_ATTENTE | STATUT_NOTIFIE | STATUT_CONFIRME | STATUT_ANNULE

record reservation =
  r_id :: string
  r_matricule_user :: string
  r_isbn :: string
  r_date_reservation :: temps
  r_statut :: StatutReservation

text \<open>
  The constructor. \<open>id_reservation\<close> is the optional argument (the empty string stands
  for \<open>None\<close>, which \<open>or\<close> treats alike), \<open>nouvel_id\<close> is what
  \<open>generer_id_unique("RES")\<close> would return and \<open>now\<close> what \<open>datetime.now()\<close>
  would.
\<close>

definition Reservation_init ::
  "string \<Rightarrow> string \<Rightarrow> temps option \<Rightarrow> StatutReservation \<Rightarrow> string \<Rightarrow> string \<Rightarrow> temps
     \<Rightarrow> erreur + reservation" where
  "Reservation_init matricule_user isbn date_reservation statut id_reservation nouvel_id now =
     (if matricule_user = [] then Inl Matricule_requis
      else if isbn = [] then Inl ISBN_requis
      else Inr \<lparr> r_id = (if id_reservation \<noteq> [] then id_reservation else nouvel_id),
                 r_matricule_user = matricule_user,
                 r_isbn = isbn,
                 r_date_reservation = (case date_reservation of Some d \<Rightarrow> d | None \<Rightarrow> now),
                 r_statut = statut \<rparr>)"

definition notifier :: "reservation \<Rightarrow> erreur + reservation" where
  "notifier r =
     (if r_statut r \<noteq> STATUT_EN_ATTENTE then Inl Notification_refusee
      else Inr (r\<lparr>r_statut := STATUT_NOTIFIE\<rparr>))"

definition confirmer_reservation :: "reservation \<Rightarrow> erreur + reservation" where
  "confirmer_reservation r =
     (if r_statut r \<noteq> STATUT_NOTIFIE then Inl Confirmation_refusee
      else Inr (r\<lparr>r_statut := STATUT_CONFIRME\<rparr>))"

definition annuler_reservation :: "reservation \<Rightarrow> reservation" where
  "annuler_reservation r =
     (if r_statut r = STATUT_ANNULE then r
      else r\<lparr>r_statut := STATUT_ANNULE\<rparr>)"

definition est_notifiable :: "reservation \<Rightarrow> bool" where
  "est_notifiable r = (r_statut r = STATUT_EN_ATTENTE)"

definition est_confirmable :: "reservation \<Rightarrow> bool" where
  "est_confirmable r = (r_statut r = STATUT_NOTIFIE)"

text \<open>The three state-changing methods, named, so that a transition can be quantified over.\<close>

datatype changement = Notifier | Confirmer | Annuler

fun changer :: "changement \<Rightarrow> reservation \<Rightarrow> erreur + reservation" where
  "changer Notifier r = notifier r"
| "changer Confirmer r = confirmer_reservation r"
| "changer Annuler r = Inr (annuler_reservation r)"

subsection \<open>Persisted form\<close>

text \<open>
  The dictionary \<open>data_format\<close> writes and \<open>from_dict\<close> reads. A missing
  \<open>id_reservation\<close>, \<open>matricule_user\<close> or \<open>isbn\<close> is the empty string (the default
  of \<open>data.get\<close>, or a value \<open>or\<close> treats like it); \<open>dr_date_reservation\<close> is
  \<open>None\<close> for a missing, empty or unparsable string.
\<close>

record donnees_reservation =
  dr_id_reservation :: string
  dr_matricule_user :: string
  dr_isbn :: string
  dr_date_reservation :: "temps option"
  dr_statut :: string

fun valeur_statut :: "StatutReservation \<Rightarrow> string" where
  "valeur_statut STATUT_EN_ATTENTE = ''en_attente''"
| "valeur_statut STATUT_NOTIFIE = ''notifie''"
| "valeur_statut STATUT_CONFIRME = ''confirme''"
| "valeur_statut STATUT_ANNULE = ''annule''"

definition statut_depuis_valeur :: "string \<Rightarrow> StatutReservation" where
  "statut_depuis_valeur v =
     (if v = ''notifie'' then STATUT_NOTIFIE
      else if v = ''confirme'' then STATUT_CONFIRME
      else if v = ''annule'' then STATUT_ANNULE
      else STATUT_EN_ATTENTE)"

definition Reservation_data_format :: "reservation \<Rightarrow> donnees_reservation" where
  "Reservation_data_format r =
     \<lparr> dr_id_reservation = r_id r,
       dr_matricule_user = r_matricule_user r,
       dr_isbn = r_isbn r,
       dr_date_reservation = Some (r_date_reservation r),
       dr_statut = valeur_statut (r_statut r) \<rparr>"

definition Reservation_from_dict ::
  "donnees_reservation \<Rightarrow> string \<Rightarrow> temps \<Rightarrow> erreur + reservation" where
  "Reservation_from_dict d nouvel_id now =
     Reservation_init (dr_matricule_user d) (dr_isbn d) (dr_date_reservation d)
       (statut_depuis_valeur (dr_statut d)) (dr_id_reservation d) nouvel_id now"

section \<open>Loan (models/emprunt.py)\<close>

record emprunt =
  e_id_emprunt :: string
  e_matricule_user :: string
  e_isbn :: string
  e_code_barre :: string
  e_date_emprunt :: temps
  e_date_echeance :: temps
  e_date_retour :: "temps option"
  e_renouvellements :: int

definition MAX_RENOUVELLEMENTS :: int where
  "MAX_RENOUVELLEMENTS = 2"

text \<open>
  The constructor, as \<open>GestionEmprunt.emprunter\<close> calls it (both dates given);
  \<open>nouvel_id\<close> is what \<open>generer_id_unique("EMP")\<close> would return.
\<close>

definition Emprunt_init ::
  "string \<Rightarrow> string \<Rightarrow> string \<Rightarrow> string \<Rightarrow> temps \<Rightarrow> temps \<Rightarrow> erreur + emprunt" where
  "Emprunt_init nouvel_id matricule_user isbn code_barre date_emprunt date_echeance =
     (if \<not> valider_code_barre code_barre then Inl Code_barres_invalide
      else Inr \<lparr> e_id_emprunt = nouvel_id,
                 e_matricule_user = matricule_user,
                 e_isbn = isbn,
                 e_code_barre = code_barre,
                 e_date_emprunt = date_emprunt,
                 e_date_echeance = date_echeance,
                 e_date_retour = None,
                 e_renouvellements = 0 \<rparr>)"

text \<open>The property \<open>statut\<close>; \<open>now\<close> is the clock, read only when the loan is out.\<close>

definition Emprunt_statut :: "temps \<Rightarrow> emprunt \<Rightarrow> string" where
  "Emprunt_statut now e =
     (case e_date_retour e of
        Some date_retour \<Rightarrow>
          (if date_retour > e_date_echeance e then ''en_retard'' else ''retourne'')
      | None \<Rightarrow>
          (if now > e_date_echeance e then ''en_retard'' else ''emprunte''))"

definition est_en_retard :: "temps \<Rightarrow> emprunt \<Rightarrow> bool" where
  "est_en_retard now e = (e_date_retour e = None \<and> now > e_date_echeance e)"

definition peut_renouveler :: "temps \<Rightarrow> emprunt \<Rightarrow> bool" where
  "peut_renouveler now e =
     (if e_date_retour e \<noteq> None then False
      else if est_en_retard now e then False
      else e_renouvellements e < MAX_RENOUVELLEMENTS)"

text \<open>
  \<open>renouveler\<close> first moves the due date, then counts the renewal: when the new date
  is out of range the addition raises and the loan is as it was.
\<close>

definition Emprunt_renouveler :: "temps \<Rightarrow> emprunt \<Rightarrow> int \<Rightarrow> erreur + bool \<times> emprunt" where
  "Emprunt_renouveler now e jours =
     (if \<not> peut_renouveler now e then Inr (False, e)
      else
        (case ajouter_jours (e_date_echeance e) jours of
           None \<Rightarrow> Inl OverflowError
         | Some date_echeance \<Rightarrow>
             Inr (True, e\<lparr> e_date_echeance := date_echeance,
                            e_renouvellements := e_renouvellements e + 1 \<rparr>)))"

definition Emprunt_retourner :: "temps \<Rightarrow> emprunt \<Rightarrow> emprunt" where
  "Emprunt_retourner now e = e\<lparr>e_date_retour := Some now\<rparr>"

subsection \<open>Persisted form\<close>

record donnees_emprunt =
  de_id_emprunt :: string
  de_matricule_user :: string
  de_isbn :: string
  de_code_barre :: string
  de_date_emprunt :: temps
  de_date_echeance :: temps
  de_date_retour :: "temps option"
  de_statut :: string
  de_renouvellements :: int

definition Emprunt_data_format :: "temps \<Rightarrow> emprunt \<Rightarrow> donnees_emprunt" where
  "Emprunt_data_format now e =
     \<lparr> de_id_emprunt = e_id_emprunt e,
       de_matricule_user = e_matricule_user e,
       de_isbn = e_isbn e,
       de_code_barre = e_code_barre e,
       de_date_emprunt = isoformat_seconds (e_date_emprunt e),
       de_date_echeance = isoformat_seconds (e_date_echeance e),
       de_date_retour = map_option isoformat_seconds (e_date_retour e),
       de_statut = Emprunt_statut now e,
       de_renouvellements = e_renouvellements e \<rparr>"

definition Emprunt_from_dict :: "donnees_emprunt \<Rightarrow> erreur + emprunt" where
  "Emprunt_from_dict d =
     (if \<not> valider_code_barre (de_code_barre d) then Inl Code_barres_invalide
      else Inr \<lparr> e_id_emprunt = de_id_emprunt d,
                 e_matricule_user = de_matricule_user d,
                 e_isbn = de_isbn d,
                 e_code_barre = de_code_barre d,
                 e_date_emprunt = de_date_emprunt d,
                 e_date_echeance = de_date_echeance d,
                 e_date_retour = de_date_retour d,
                 e_renouvellements = de_renouvellements d \<rparr>)"

section \<open>Copy (models/exemplaire.py)\<close>

record exemplaire =
  ex_id_exemplaire :: string
  ex_code_barre :: string
  ex_etat :: string
  ex_localisation :: string
  ex_statut :: StatutLivre
  ex_date_acquisition :: temps

section \<open>Book (models/livre.py)\<close>

text \<open>
  The bibliographic fields other than the ISBN and the title are left out: no operation
  below reads or writes them.
\<close>

record livre =
  l_isbn :: string
  l_titre :: string
  l_exemplaires :: "exemplaire list"
  l_statut :: StatutLivre
  l_compteur_emprunts :: int

definition nombre_exemplaires :: "livre \<Rightarrow> nat" where
  "nombre_exemplaires l = length (l_exemplaires l)"

definition exemplaires_disponibles :: "livre \<Rightarrow> nat" where
  "exemplaires_disponibles l = length (filter (\<lambda>ex. ex_statut ex = DISPONIBLE) (l_exemplaires l))"

definition mettre_a_jour_statut :: "livre \<Rightarrow> livre" where
  "mettre_a_jour_statut l =
     (if nombre_exemplaires l = 0 then l\<lparr>l_statut := INDISPONIBLE\<rparr>
      else if exemplaires_disponibles l > 0 then l\<lparr>l_statut := DISPONIBLE\<rparr>
      else l\<lparr>l_statut := EMPRUNTE\<rparr>)"

definition incrementer_compteur :: "livre \<Rightarrow> livre" where
  "incrementer_compteur l = l\<lparr>l_compteur_emprunts := l_compteur_emprunts l + 1\<rparr>"

definition est_disponible :: "livre \<Rightarrow> bool" where
  "est_disponible l = (exemplaires_disponibles l > 0)"

text \<open>
  Objects are mutated in place. On a list of values, mutating the first element a loop
  finds is \<open>maj_premier\<close>, and removing it is \<open>retirer_premier\<close>.
\<close>

fun maj_premier :: "('a \<Rightarrow> bool) \<Rightarrow> ('a \<Rightarrow> 'a) \<Rightarrow> 'a list \<Rightarrow> 'a list" where
  "maj_premier P f [] = []"
| "maj_premier P f (x # xs) = (if P x then f x # xs else x # maj_premier P f xs)"

fun retirer_premier :: "('a \<Rightarrow> bool) \<Rightarrow> 'a list \<Rightarrow> 'a list" where
  "retirer_premier P [] = []"
| "retirer_premier P (x # xs) = (if P x then xs else x # retirer_premier P xs)"

definition Livre_ajouter_exemplaire :: "exemplaire \<Rightarrow> livre \<Rightarrow> livre" where
  "Livre_ajouter_exemplaire ex l =
     mettre_a_jour_statut (l\<lparr>l_exemplaires := l_exemplaires l @ [ex]\<rparr>)"

definition Livre_retirer_exemplaire :: "string \<Rightarrow> livre \<Rightarrow> bool \<times> livre" where
  "Livre_retirer_exemplaire code_barre l =
     (case find (\<lambda>ex. ex_code_barre ex = code_barre) (l_exemplaires l) of
        None \<Rightarrow> (False, l)
      | Some _ \<Rightarrow>
          (True, mettre_a_jour_statut
             (l\<lparr>l_exemplaires :=
                  retirer_premier (\<lambda>ex. ex_code_barre ex = code_barre) (l_exemplaires l)\<rparr>)))"

section \<open>Member (models/user.py)\<close>

datatype StatutUtilisateur = Actif | Inactif

record info_emprunt =
  i_isbn :: string
  i_id_exemplaire :: string
  i_date_emprunt :: temps

datatype entree_historique =
    Action_emprunt string string temps
  | Action_retour string string temps

record user =
  u_matricule :: string
  u_type_utilisateur :: TypeUtilisateur
  u_statut :: StatutUtilisateur
  u_livres_empruntes :: "info_emprunt list"
  u_historique :: "entree_historique list"
  u_limite_emprunts :: int

definition peut_emprunter :: "user \<Rightarrow> bool" where
  "peut_emprunter u =
     (u_statut u = Actif \<and> int (length (u_livres_empruntes u)) < u_limite_emprunts u)"

definition enregistrer_emprunt :: "temps \<Rightarrow> string \<Rightarrow> string \<Rightarrow> user \<Rightarrow> user" where
  "enregistrer_emprunt now isbn id_exemplaire u =
     u\<lparr> u_livres_empruntes := u_livres_empruntes u @
            [\<lparr>i_isbn = isbn, i_id_exemplaire = id_exemplaire, i_date_emprunt = now\<rparr>],
        u_historique := u_historique u @ [Action_emprunt isbn id_exemplaire now] \<rparr>"

definition enregistrer_retour :: "temps \<Rightarrow> string \<Rightarrow> string \<Rightarrow> user \<Rightarrow> user" where
  "enregistrer_retour now isbn id_exemplaire u =
     u\<lparr> u_livres_empruntes :=
            filter (\<lambda>e. \<not> (i_isbn e = isbn \<and> i_id_exemplaire e = id_exemplaire))
              (u_livres_empruntes u),
        u_historique := u_historique u @ [Action_retour isbn id_exemplaire now] \<rparr>"

section \<open>The services' state\<close>

text \<open>
  One record holds what the four services keep in memory: the catalogue
  (\<open>GestionLivre._livres\<close>), the members (\<open>GestionUtilisateur._utilisateurs\<close>), the
  loans and suspensions of \<open>GestionEmprunt\<close>, the reservations and queues of
  \<open>GestionReservation\<close>. A dictionary that is iterated is an association list in
  insertion order (\<open>AList.update\<close> replaces in place or appends, as assignment to a
  Python \<open>dict\<close> does); the others are maps. A suspension's ISO string is the instant it
  denotes. The two JSON files the loan and reservation services write are part of the
  state (\<open>None\<close> before the first write; a write is taken to succeed). The journal, the
  notification text file and the files of the catalogue and of the members are
  write-only from here and are left out. The optional collaborators of the services
  are flags: \<open>True\<close> when the reference is set.
\<close>

record etat =
  livres :: "livre list"
  utilisateurs :: "user list"
  emprunts :: "(string \<times> emprunt) list"
  suspensions :: "string \<rightharpoonup> temps"
  reservations :: "(string \<times> reservation) list"
  files :: "string \<rightharpoonup> string list"
  fichier_emprunts :: "(donnees_emprunt list \<times> (string \<rightharpoonup> temps)) option"
  fichier_reservations :: "(donnees_reservation list \<times> (string \<rightharpoonup> string list)) option"
  liv_gestion_reservation :: bool
  emp_gestion_reservation :: bool
  res_gestion_livre :: bool
  res_gestion_emprunt :: bool
  res_gestion_user :: bool

definition get_livre :: "etat \<Rightarrow> string \<Rightarrow> livre option" where
  "get_livre s isbn = find (\<lambda>l. l_isbn l = isbn) (livres s)"

definition get_utilisateur_par_matricule :: "etat \<Rightarrow> string \<Rightarrow> user option" where
  "get_utilisateur_par_matricule s matricule = find (\<lambda>u. u_matricule u = matricule) (utilisateurs s)"

definition modifier_livre :: "string \<Rightarrow> (livre \<Rightarrow> livre) \<Rightarrow> etat \<Rightarrow> etat" where
  "modifier_livre isbn f s = s\<lparr>livres := maj_premier (\<lambda>l. l_isbn l = isbn) f (livres s)\<rparr>"

definition modifier_utilisateur :: "string \<Rightarrow> (user \<Rightarrow> user) \<Rightarrow> etat \<Rightarrow> etat" where
  "modifier_utilisateur matricule f s =
     s\<lparr>utilisateurs := maj_premier (\<lambda>u. u_matricule u = matricule) f (utilisateurs s)\<rparr>"

section \<open>Reservation queues (services/gestion\_reservation.py), first part\<close>

definition sauvegarder_reservations :: "etat \<Rightarrow> etat" where
  "sauvegarder_reservations s =
     s\<lparr>fichier_reservations :=
         Some (map (\<lambda>(k, r). Reservation_data_format r) (reservations s), files s)\<rparr>"

definition ajouter_a_file :: "string \<Rightarrow> string \<Rightarrow> etat \<Rightarrow> etat" where
  "ajouter_a_file isbn id_reservation s =
     s\<lparr>files := (files s)(isbn \<mapsto>
         (case files s isbn of None \<Rightarrow> [] | Some q \<Rightarrow> q) @ [id_reservation])\<rparr>"

definition retirer_de_file :: "string \<Rightarrow> string \<Rightarrow> etat \<Rightarrow> etat" where
  "retirer_de_file isbn id_reservation s =
     (case files s isbn of
        None \<Rightarrow> s
      | Some q \<Rightarrow>
          if id_reservation \<in> set q then s\<lparr>files := (files s)(isbn \<mapsto> remove1 id_reservation q)\<rparr>
          else s)"

definition lister_par_user :: "etat \<Rightarrow> string \<Rightarrow> reservation list" where
  "lister_par_user s matricule_user =
     filter (\<lambda>r. r_matricule_user r = matricule_user) (map snd (reservations s))"

text \<open>
  \<open>traiter_file\<close> returns the id of the reservation it notified, if any. The line it
  appends to the notification file is not part of the state.
\<close>

definition traiter_file :: "string \<Rightarrow> etat \<Rightarrow> string option \<times> etat" where
  "traiter_file isbn s =
     (if \<not> res_gestion_livre s then (None, s)
      else
        (case get_livre s isbn of
           None \<Rightarrow> (None, s)
         | Some livre \<Rightarrow>
             if \<not> est_disponible livre then (None, s)
             else
               let file_propre =
                     filter (\<lambda>rid. (case map_of (reservations s) rid of
                                       None \<Rightarrow> False
                                     | Some r \<Rightarrow> r_statut r = STATUT_EN_ATTENTE))
                       (case files s isbn of None \<Rightarrow> [] | Some q \<Rightarrow> q);
                   s1 = s\<lparr>files := (files s)(isbn \<mapsto> file_propre)\<rparr>
               in (case file_propre of
                     [] \<Rightarrow> (None, s1)
                   | first_id # _ \<Rightarrow>
                       (case map_of (reservations s1) first_id of
                          None \<Rightarrow> (None, s1)
                        | Some r \<Rightarrow>
                            (case notifier r of
                               Inl _ \<Rightarrow> (None, s1)
                             | Inr r' \<Rightarrow>
                                 (Some (r_id r'),
                                  sauvegarder_reservations
                                    (s1\<lparr>reservations :=
                                          AList.update first_id r' (reservations s1)\<rparr>)))))))"

section \<open>Loans (services/gestion\_emprunt.py)\<close>

definition FACTEUR_SUSPENSION :: int where
  "FACTEUR_SUSPENSION = 3"

definition nettoyer_suspensions :: "temps \<Rightarrow> (string \<rightharpoonup> temps) \<Rightarrow> (string \<rightharpoonup> temps)" where
  "nettoyer_suspensions now susp =
     (\<lambda>matricule. case susp matricule of
                     None \<Rightarrow> None
                   | Some fin \<Rightarrow> if fin > now then Some fin else None)"

text \<open>
  \<open>__sauvegarder\<close> prunes the suspensions, then writes the loans and the suspensions.
  \<open>now\<close> is the clock at the save (one reading for the pruning and for the \<open>statut\<close>
  written with each loan).
\<close>

definition sauvegarder :: "temps \<Rightarrow> etat \<Rightarrow> etat" where
  "sauvegarder now s =
     (let susp = nettoyer_suspensions now (suspensions s)
      in s\<lparr> suspensions := susp,
             fichier_emprunts :=
               Some (map (\<lambda>(k, e). Emprunt_data_format now e) (emprunts s), susp) \<rparr>)"

text \<open>
  \<open>__is_suspended\<close>: \<open>t_test\<close> is the clock at the comparison and \<open>t_sauv\<close> the clock at
  the save that follows the removal of an expired entry.
\<close>

definition is_suspended :: "temps \<Rightarrow> temps \<Rightarrow> string \<Rightarrow> etat \<Rightarrow> temps option \<times> etat" where
  "is_suspended t_test t_sauv matricule s =
     (case suspensions s matricule of
        None \<Rightarrow> (None, s)
      | Some fin \<Rightarrow>
          if t_test < fin then (Some fin, s)
          else (None, sauvegarder t_sauv (s\<lparr>suspensions := (suspensions s)(matricule := None)\<rparr>)))"

text \<open>
  \<open>__trouver_exemplaire\<close> returns the first copy its loop accepts: the first with the
  given barcode, or, with no barcode (\<open>None\<close> or the empty string), the first available
  one. \<open>critere_exemplaire\<close> is the test of that loop.
\<close>

definition critere_exemplaire :: "string option \<Rightarrow> exemplaire \<Rightarrow> bool" where
  "critere_exemplaire code_barre ex =
     (case code_barre of
        None \<Rightarrow> ex_statut ex = DISPONIBLE
      | Some c \<Rightarrow> if c \<noteq> [] then ex_code_barre ex = c else ex_statut ex = DISPONIBLE)"

definition trouver_exemplaire :: "livre \<Rightarrow> string option \<Rightarrow> exemplaire option" where
  "trouver_exemplaire livre code_barre = find (critere_exemplaire code_barre) (l_exemplaires livre)"

text \<open>
  The clock readings of one call are passed in, one field for each place that reads
  \<open>datetime.now()\<close>; a path that does not reach a place ignores its field.
\<close>

record lectures_emprunter =
  le_verification :: temps
  le_purge :: temps
  le_emprunt :: temps
  le_historique :: temps
  le_sauvegarde :: temps

definition emprunter ::
  "etat \<Rightarrow> string \<Rightarrow> string \<Rightarrow> string option \<Rightarrow> int \<Rightarrow> string \<Rightarrow> lectures_emprunter
     \<Rightarrow> (erreur + emprunt) \<times> etat" where
  "emprunter s matricule isbn code_barre duree_jours nouvel_id h =
     (case get_utilisateur_par_matricule s matricule of
        None \<Rightarrow> (Inl Utilisateur_introuvable, s)
      | Some user \<Rightarrow>
          (case is_suspended (le_verification h) (le_purge h) matricule s of
             (Some _, s1) \<Rightarrow> (Inl Utilisateur_suspendu, s1)
           | (None, s1) \<Rightarrow>
               if \<not> peut_emprunter user then (Inl LimiteAtteinte, s1)
               else
                 (case get_livre s1 isbn of
                    None \<Rightarrow> (Inl Livre_introuvable, s1)
                  | Some livre \<Rightarrow>
                      (case trouver_exemplaire livre code_barre of
                         None \<Rightarrow> (Inl ExemplaireIndisponible, s1)
                       | Some exemplaire \<Rightarrow>
                           if ex_statut exemplaire \<noteq> DISPONIBLE then (Inl ExemplaireIndisponible, s1)
                           else
                             (case ajouter_jours (le_emprunt h) duree_jours of
                                None \<Rightarrow> (Inl OverflowError, s1)
                              | Some date_echeance \<Rightarrow>
                             (case Emprunt_init nouvel_id matricule isbn (ex_code_barre exemplaire)
                                     (le_emprunt h) date_echeance of
                                Inl err \<Rightarrow> (Inl err, s1)
                              | Inr emprunt \<Rightarrow>
                                  let s2 = modifier_livre isbn
                                             (\<lambda>l. mettre_a_jour_statut (incrementer_compteur
                                                (l\<lparr>l_exemplaires :=
                                                     maj_premier (critere_exemplaire code_barre)
                                                       (\<lambda>ex. ex\<lparr>ex_statut := EMPRUNTE\<rparr>)
                                                       (l_exemplaires l)\<rparr>))) s1;
                                      s3 = modifier_utilisateur matricule
                                             (enregistrer_emprunt (le_historique h) isbn
                                                (ex_code_barre exemplaire)) s2;
                                      s4 = s3\<lparr>emprunts :=
                                                AList.update (e_id_emprunt emprunt) emprunt (emprunts s3)\<rparr>
                                  in (Inr emprunt, sauvegarder (le_sauvegarde h) s4)))))))"

record lectures_retourner =
  lr_retour :: temps
  lr_historique :: temps
  lr_suspension :: temps
  lr_sauvegarde :: temps

definition retourner :: "etat \<Rightarrow> string \<Rightarrow> lectures_retourner \<Rightarrow> (erreur + emprunt) \<times> etat" where
  "retourner s id_emprunt h =
     (case map_of (emprunts s) id_emprunt of
        None \<Rightarrow> (Inl EmpruntNonTrouve, s)
      | Some emprunt0 \<Rightarrow>
          if e_date_retour emprunt0 \<noteq> None then (Inr emprunt0, s)
          else
            let emprunt = Emprunt_retourner (lr_retour h) emprunt0;
                s1 = s\<lparr>emprunts := AList.update id_emprunt emprunt (emprunts s)\<rparr>;
                s2 = (case get_livre s1 (e_isbn emprunt) of
                        Some _ \<Rightarrow>
                          modifier_livre (e_isbn emprunt)
                            (\<lambda>l. mettre_a_jour_statut
                               (l\<lparr>l_exemplaires :=
                                    maj_premier (\<lambda>ex. ex_code_barre ex = e_code_barre emprunt)
                                      (\<lambda>ex. ex\<lparr>ex_statut := DISPONIBLE\<rparr>)
                                      (l_exemplaires l)\<rparr>)) s1
                      | None \<Rightarrow> s1);
                s3 = (case get_utilisateur_par_matricule s2 (e_matricule_user emprunt) of
                        Some _ \<Rightarrow>
                          modifier_utilisateur (e_matricule_user emprunt)
                            (enregistrer_retour (lr_historique h) (e_isbn emprunt)
                               (e_code_barre emprunt)) s2
                      | None \<Rightarrow> s2);
                s4 = (if Emprunt_statut (lr_suspension h) emprunt = ''en_retard'' then
                        let jours_retard0 =
                              days (the (e_date_retour emprunt) - e_date_echeance emprunt);
                            jours_retard = (if jours_retard0 \<le> 0 then 1 else jours_retard0);
                            jours_suspension = jours_retard * FACTEUR_SUSPENSION;
                            suspend_until = lr_suspension h + timedelta_days jours_suspension
                        in s3\<lparr>suspensions :=
                                (suspensions s3)(e_matricule_user emprunt \<mapsto> suspend_until)\<rparr>
                      else s3);
                s5 = (if emp_gestion_reservation s4 then snd (traiter_file (e_isbn emprunt) s4)
                      else s4)
            in (Inr emprunt, sauvegarder (lr_sauvegarde h) s5))"

record lectures_renouveler =
  ln_retard :: temps
  ln_sauvegarde :: temps

definition renouveler ::
  "etat \<Rightarrow> string \<Rightarrow> int \<Rightarrow> lectures_renouveler \<Rightarrow> (erreur + bool) \<times> etat" where
  "renouveler s id_emprunt jours h =
     (case map_of (emprunts s) id_emprunt of
        None \<Rightarrow> (Inl EmpruntNonTrouve, s)
      | Some emprunt \<Rightarrow>
          (case Emprunt_renouveler (ln_retard h) emprunt jours of
             Inl err \<Rightarrow> (Inl err, s)
           | Inr (True, emprunt') \<Rightarrow>
               (Inr True,
                sauvegarder (ln_sauvegarde h)
                  (s\<lparr>emprunts := AList.update id_emprunt emprunt' (emprunts s)\<rparr>))
           | Inr (False, _) \<Rightarrow> (Inr False, s)))"

definition lister_en_cours :: "etat \<Rightarrow> emprunt list" where
  "lister_en_cours s = filter (\<lambda>e. e_date_retour e = None) (map snd (emprunts s))"

text \<open>The loop of \<open>appliquer_penalites\<close> over the loans that are out, on the suspensions.\<close>

fun penaliser :: "temps \<Rightarrow> emprunt list \<Rightarrow> (string \<rightharpoonup> temps) \<Rightarrow> (string \<rightharpoonup> temps)" where
  "penaliser now [] susp = susp"
| "penaliser now (emprunt # reste) susp =
     penaliser now reste
       (if e_date_echeance emprunt < now then
          (let jours_retard = days (now - e_date_echeance emprunt)
           in if jours_retard > 0 then
                susp(e_matricule_user emprunt \<mapsto>
                       now + timedelta_days (jours_retard * FACTEUR_SUSPENSION))
              else susp)
        else susp)"

record lectures_penalites =
  lp_now :: temps
  lp_sauvegarde :: temps

definition appliquer_penalites :: "etat \<Rightarrow> lectures_penalites \<Rightarrow> etat" where
  "appliquer_penalites s h =
     sauvegarder (lp_sauvegarde h)
       (s\<lparr>suspensions := penaliser (lp_now h) (lister_en_cours s) (suspensions s)\<rparr>)"

section \<open>Reservation queues (services/gestion\_reservation.py), second part\<close>

definition reserver ::
  "etat \<Rightarrow> string \<Rightarrow> string \<Rightarrow> string \<Rightarrow> temps \<Rightarrow> (erreur + reservation) \<times> etat" where
  "reserver s matricule_user isbn nouvel_id now =
     (if res_gestion_user s \<and> get_utilisateur_par_matricule s matricule_user = None
        then (Inl Utilisateur_introuvable, s)
      else if res_gestion_livre s \<and> get_livre s isbn = None
        then (Inl Livre_introuvable, s)
      else if res_gestion_livre s \<and>
              (case get_livre s isbn of None \<Rightarrow> False | Some livre \<Rightarrow> est_disponible livre)
        then (Inl Livre_deja_disponible, s)
      else if list_ex (\<lambda>r. r_isbn r = isbn \<and>
                           (r_statut r = STATUT_EN_ATTENTE \<or> r_statut r = STATUT_NOTIFIE))
                (lister_par_user s matricule_user)
        then (Inl Reservation_en_cours, s)
      else
        (case Reservation_init matricule_user isbn None STATUT_EN_ATTENTE [] nouvel_id now of
           Inl err \<Rightarrow> (Inl err, s)
         | Inr r \<Rightarrow>
             (Inr r,
              sauvegarder_reservations
                (ajouter_a_file isbn (r_id r)
                   (s\<lparr>reservations := AList.update (r_id r) r (reservations s)\<rparr>)))))"

definition annuler :: "etat \<Rightarrow> string \<Rightarrow> bool \<times> etat" where
  "annuler s id_reservation =
     (case map_of (reservations s) id_reservation of
        None \<Rightarrow> (False, s)
      | Some r \<Rightarrow>
          (True,
           sauvegarder_reservations
             (retirer_de_file (r_isbn r) id_reservation
                (s\<lparr>reservations :=
                     AList.update id_reservation (annuler_reservation r) (reservations s)\<rparr>))))"

text \<open>
  \<open>confirmer\<close> returns a boolean. With a loan service, \<open>except Exception\<close> turns every
  failure of \<open>emprunter\<close> (and of the transition after it) into \<open>False\<close>; without one,
  the transition is not guarded by a \<open>try\<close>, and its error would propagate.
\<close>

definition confirmer ::
  "etat \<Rightarrow> string \<Rightarrow> string \<Rightarrow> lectures_emprunter \<Rightarrow> (erreur + bool) \<times> etat" where
  "confirmer s id_reservation nouvel_id h =
     (case map_of (reservations s) id_reservation of
        None \<Rightarrow> (Inr False, s)
      | Some r \<Rightarrow>
          if \<not> est_confirmable r then (Inr False, s)
          else if res_gestion_emprunt s then
            (case emprunter s (r_matricule_user r) (r_isbn r) None 14 nouvel_id h of
               (Inl _, s1) \<Rightarrow> (Inr False, s1)
             | (Inr _, s1) \<Rightarrow>
                 (case confirmer_reservation r of
                    Inl _ \<Rightarrow> (Inr False, s1)
                  | Inr r' \<Rightarrow>
                      (Inr True,
                       sauvegarder_reservations
                         (retirer_de_file (r_isbn r') id_reservation
                            (s1\<lparr>reservations :=
                                  AList.update id_reservation r' (reservations s1)\<rparr>)))))
          else
            (case confirmer_reservation r of
               Inl err \<Rightarrow> (Inl err, s)
             | Inr r' \<Rightarrow>
                 (Inr True,
                  sauvegarder_reservations
                    (retirer_de_file (r_isbn r') id_reservation
                       (s\<lparr>reservations :=
                            AList.update id_reservation r' (reservations s)\<rparr>)))))"

section \<open>Catalogue (services/gestion\_livre.py)\<close>

text \<open>
  \<open>str.strip\<close> and \<open>str.lower\<close> on ASCII text: the white space \<open>strip\<close> removes, and
  the letters \<open>lower\<close> changes. Python also strips the white space and lowers the
  capitals that are not ASCII; on a barcode with such characters the check below can
  accept a copy that the program refuses.
\<close>

definition est_espace :: "char \<Rightarrow> bool" where
  "est_espace c = ((of_char c :: nat) \<in> {9, 10, 11, 12, 13, 28, 29, 30, 31, 32})"

definition str_strip :: "string \<Rightarrow> string" where
  "str_strip x = rev (dropWhile est_espace (rev (dropWhile est_espace x)))"

definition str_lower :: "string \<Rightarrow> string" where
  "str_lower x =
     map (\<lambda>c. if 65 \<le> (of_char c :: nat) \<and> (of_char c :: nat) \<le> 90
              then char_of ((of_char c :: nat) + 32) else c) x"

definition code_barre_existe :: "etat \<Rightarrow> string \<Rightarrow> bool" where
  "code_barre_existe s code_barre =
     (if code_barre = [] then False
      else
        list_ex (\<lambda>livre.
            list_ex (\<lambda>ex. str_lower (str_strip (ex_code_barre ex)) = str_lower (str_strip code_barre))
              (l_exemplaires livre))
          (livres s))"

definition ajouter_exemplaire :: "etat \<Rightarrow> string \<Rightarrow> exemplaire \<Rightarrow> (erreur + unit) \<times> etat" where
  "ajouter_exemplaire s isbn exemplaire =
     (case get_livre s isbn of
        None \<Rightarrow> (Inl Livre_introuvable, s)
      | Some _ \<Rightarrow>
          if code_barre_existe s (ex_code_barre exemplaire) then (Inl Code_barres_deja_utilise, s)
          else
            let s1 = modifier_livre isbn (Livre_ajouter_exemplaire exemplaire) s
            in (Inr (),
                if liv_gestion_reservation s1 then snd (traiter_file isbn s1) else s1))"

definition retirer_exemplaire :: "etat \<Rightarrow> string \<Rightarrow> string \<Rightarrow> bool \<times> etat" where
  "retirer_exemplaire s isbn code_barre =
     (case get_livre s isbn of
        None \<Rightarrow> (False, s)
      | Some livre \<Rightarrow>
          (fst (Livre_retirer_exemplaire code_barre livre),
           modifier_livre isbn (\<lambda>l. snd (Livre_retirer_exemplaire code_barre l)) s))"

section \<open>Predicates of the specification\<close>

text \<open>
  The book invariant: the status is \<open>INDISPONIBLE\<close> exactly when there is no copy,
  \<open>DISPONIBLE\<close> exactly when some copy is available, and \<open>EMPRUNTE\<close> exactly in
  the remaining case.
\<close>

definition statut_coherent :: "livre \<Rightarrow> bool" where
  "statut_coherent l =
     ((l_statut l = INDISPONIBLE \<longleftrightarrow> length (l_exemplaires l) = 0) \<and>
      (l_statut l = DISPONIBLE \<longleftrightarrow> (\<exists>ex \<in> set (l_exemplaires l). ex_statut ex = DISPONIBLE)) \<and>
      (l_statut l = EMPRUNTE \<longleftrightarrow>
         length (l_exemplaires l) \<noteq> 0 \<and> \<not> (\<exists>ex \<in> set (l_exemplaires l). ex_statut ex = DISPONIBLE)))"

text \<open>The status changes a reservation can undergo.\<close>

definition transition_permise :: "StatutReservation \<Rightarrow> StatutReservation \<Rightarrow> bool" where
  "transition_permise a b =
     ((a = STATUT_EN_ATTENTE \<and> b = STATUT_NOTIFIE) \<or>
      (a = STATUT_NOTIFIE \<and> b = STATUT_CONFIRME) \<or>
      (a \<noteq> STATUT_ANNULE \<and> b = STATUT_ANNULE))"

text \<open>
  The loans whose status, read at the clock \<open>now\<close>, depends on the microseconds that
  \<open>data_format\<close> drops: a loan returned after its due date within the same second, and
  a loan that is out while the clock is in the second of the due date, after the
  start of that second and not after the due date.
\<close>

definition troncature_decisive :: "temps \<Rightarrow> emprunt \<Rightarrow> bool" where
  "troncature_decisive now e =
     (case e_date_retour e of
        Some date_retour \<Rightarrow>
          e_date_echeance e < date_retour \<and>
          isoformat_seconds date_retour = isoformat_seconds (e_date_echeance e)
      | None \<Rightarrow>
          isoformat_seconds (e_date_echeance e) < now \<and> now \<le> e_date_echeance e)"

text \<open>A new due date that a \<open>datetime\<close> can hold, \<open>jours\<close> days after the date \<open>t\<close>.\<close>

definition echeance_representable :: "temps \<Rightarrow> int \<Rightarrow> bool" where
  "echeance_representable t jours =
     (- 999999999 \<le> jours \<and> jours \<le> 999999999 \<and>
      datetime_min \<le> t + jours * jour \<and> t + jours * jour \<le> datetime_max)"

text \<open>
  A loan that is out and at least one whole day past its due date at \<open>now\<close>: the loans
  \<open>appliquer_penalites\<close> suspends for.
\<close>

definition retard_penalisable :: "temps \<Rightarrow> emprunt \<Rightarrow> bool" where
  "retard_penalisable now e = (e_date_retour e = None \<and> 1 \<le> days (now - e_date_echeance e))"

section \<open>A library, for the examples\<close>

definition livre_1 :: livre where
  "livre_1 =
     \<lparr> l_isbn = ''9780306406157'', l_titre = ''Logique'',
       l_exemplaires =
         [\<lparr>ex_id_exemplaire = ''EX-AAAAAAA1'', ex_code_barre = ''00001'', ex_etat = ''bon'',
            ex_localisation = ''stock'', ex_statut = EMPRUNTE, ex_date_acquisition = 0\<rparr>,
          \<lparr>ex_id_exemplaire = ''EX-AAAAAAA2'', ex_code_barre = ''00002'', ex_etat = ''bon'',
            ex_localisation = ''stock'', ex_statut = DISPONIBLE, ex_date_acquisition = 0\<rparr>],
       l_statut = DISPONIBLE, l_compteur_emprunts = 2 \<rparr>"

definition livre_2 :: livre where
  "livre_2 =
     \<lparr> l_isbn = ''9783161484100'', l_titre = ''Calcul'',
       l_exemplaires =
         [\<lparr>ex_id_exemplaire = ''EX-AAAAAAA3'', ex_code_barre = ''00003'', ex_etat = ''bon'',
            ex_localisation = ''stock'', ex_statut = EMPRUNTE, ex_date_acquisition = 0\<rparr>],
       l_statut = EMPRUNTE, l_compteur_emprunts = 1 \<rparr>"

definition membre_1 :: user where
  "membre_1 =
     \<lparr> u_matricule = ''U-AAAAAAA1'', u_type_utilisateur = ETUDIANT, u_statut = Actif,
       u_livres_empruntes =
         [\<lparr>i_isbn = ''9780306406157'', i_id_exemplaire = ''00001'', i_date_emprunt = 0\<rparr>],
       u_historique = [Action_emprunt ''9780306406157'' ''00001'' 0],
       u_limite_emprunts = 3 \<rparr>"

definition membre_2 :: user where
  "membre_2 =
     \<lparr> u_matricule = ''U-AAAAAAA2'', u_type_utilisateur = ETUDIANT, u_statut = Actif,
       u_livres_empruntes =
         [\<lparr>i_isbn = ''9783161484100'', i_id_exemplaire = ''00003'', i_date_emprunt = 0\<rparr>],
       u_historique = [Action_emprunt ''9783161484100'' ''00003'' 0],
       u_limite_emprunts = 3 \<rparr>"

text \<open>Two loans that are out, due after fourteen days, and one returned after one day.\<close>

definition emprunt_1 :: emprunt where
  "emprunt_1 =
     \<lparr> e_id_emprunt = ''EMP-AAAAAAA1'', e_matricule_user = ''U-AAAAAAA1'',
       e_isbn = ''9780306406157'', e_code_barre = ''00001'', e_date_emprunt = 0,
       e_date_echeance = 1209600000000, e_date_retour = None, e_renouvellements = 0 \<rparr>"

definition emprunt_2 :: emprunt where
  "emprunt_2 =
     \<lparr> e_id_emprunt = ''EMP-AAAAAAA2'', e_matricule_user = ''U-AAAAAAA2'',
       e_isbn = ''9783161484100'', e_code_barre = ''00003'', e_date_emprunt = 0,
       e_date_echeance = 1209600000000, e_date_retour = None, e_renouvellements = 0 \<rparr>"

definition emprunt_3 :: emprunt where
  "emprunt_3 =
     \<lparr> e_id_emprunt = ''EMP-AAAAAAA3'', e_matricule_user = ''U-AAAAAAA2'',
       e_isbn = ''9780306406157'', e_code_barre = ''00002'', e_date_emprunt = 0,
       e_date_echeance = 1209600000000, e_date_retour = Some 86400000000,
       e_renouvellements = 0 \<rparr>"

definition reservation_1 :: reservation where
  "reservation_1 =
     \<lparr> r_id = ''RES-AAAAAAA1'', r_matricule_user = ''U-AAAAAAA2'', r_isbn = ''9780306406157'',
       r_date_reservation = 0, r_statut = STATUT_NOTIFIE \<rparr>"

definition reservation_2 :: reservation where
  "reservation_2 =
     \<lparr> r_id = ''RES-AAAAAAA2'', r_matricule_user = ''U-AAAAAAA1'', r_isbn = ''9783161484100'',
       r_date_reservation = 0, r_statut = STATUT_EN_ATTENTE \<rparr>"

text \<open>
  The second member is suspended until day 100, holds a notified reservation for the
  first book and the only copy of the second; the first member waits for that copy.
  The services are wired as \<open>main.py\<close> wires them.
\<close>

definition bibliotheque :: etat where
  "bibliotheque =
     \<lparr> livres = [livre_1, livre_2],
       utilisateurs = [membre_1, membre_2],
       emprunts = [(''EMP-AAAAAAA1'', emprunt_1), (''EMP-AAAAAAA2'', emprunt_2),
                   (''EMP-AAAAAAA3'', emprunt_3)],
       suspensions = [''U-AAAAAAA2'' \<mapsto> 8640000000000],
       reservations = [(''RES-AAAAAAA1'', reservation_1), (''RES-AAAAAAA2'', reservation_2)],
       files = [''9780306406157'' \<mapsto> [''RES-AAAAAAA1''],
                ''9783161484100'' \<mapsto> [''RES-AAAAAAA2'']],
       fichier_emprunts = None,
       fichier_reservations = None,
       liv_gestion_reservation = True,
       emp_gestion_reservation = True,
       res_gestion_livre = True,
       res_gestion_emprunt = True,
       res_gestion_user = True \<rparr>"

text \<open>
  A sequence in that library: on day 5 the first member borrows the free copy of the
  first book (due on day 19); one microsecond into day 19 the member returns the first
  loan, five days late; one hour later the member returns the second loan.
\<close>

definition apres_second_emprunt :: etat where
  "apres_second_emprunt =
     snd (emprunter bibliotheque ''U-AAAAAAA1'' ''9780306406157'' None 14 ''EMP-AAAAAAA9''
       \<lparr>le_verification = 431999999998, le_purge = 431999999999, le_emprunt = 432000000000,
        le_historique = 432000000001, le_sauvegarde = 432000000002\<rparr>)"

definition apres_retour_tardif :: etat where
  "apres_retour_tardif =
     snd (retourner apres_second_emprunt ''EMP-AAAAAAA1''
       \<lparr>lr_retour = 1641600000001, lr_historique = 1641600000002,
        lr_suspension = 1641600000003, lr_sauvegarde = 1641600000004\<rparr>)"

definition apres_second_retour :: etat where
  "apres_second_retour =
     snd (retourner apres_retour_tardif ''EMP-AAAAAAA9''
       \<lparr>lr_retour = 1645200000000, lr_historique = 1645200000001,
        lr_suspension = 1645200000002, lr_sauvegarde = 1645200000003\<rparr>)"

section \<open>Auxiliary facts\<close>

lemma isoformat_seconds_div: "isoformat_seconds t = t div 1000000 * 1000000"
  by (simp add: isoformat_seconds_def minus_mod_eq_div_mult)

lemma isoformat_seconds_le: "isoformat_seconds t \<le> t"
  by (simp add: isoformat_seconds_def)

lemma isoformat_seconds_mono: "a \<le> b \<Longrightarrow> isoformat_seconds a \<le> isoformat_seconds b"
  by (simp add: isoformat_seconds_div zdiv_mono1)

lemma jour_positif: "0 < jour"
  by (simp add: jour_def)

lemma ajouter_jours_Some:
  "ajouter_jours t n = Some r \<longleftrightarrow> echeance_representable t n \<and> r = t + n * jour"
  by (auto simp: ajouter_jours_def echeance_representable_def timedelta_days_def)

lemma ajouter_jours_None: "ajouter_jours t n = None \<longleftrightarrow> \<not> echeance_representable t n"
  by (auto simp: ajouter_jours_def echeance_representable_def timedelta_days_def)

lemma statut_depuis_valeur_inverse: "statut_depuis_valeur (valeur_statut st) = st"
  by (cases st) (simp_all add: statut_depuis_valeur_def)

lemma map_of_update_meme: "map_of (AList.update k v al) k = Some v"
  by (simp add: update_conv')

lemma emprunts_sauvegarder: "emprunts (sauvegarder now s) = emprunts s"
  by (simp add: sauvegarder_def Let_def)

lemma fichier_sauvegarder:
  "fichier_emprunts (sauvegarder now s) =
     Some (map (\<lambda>(k, e). Emprunt_data_format now e) (emprunts (sauvegarder now s)),
           suspensions (sauvegarder now s))"
  by (simp add: sauvegarder_def Let_def)

subsection \<open>The example library\<close>

lemmas exemple_defs = bibliotheque_def livre_1_def livre_2_def membre_1_def membre_2_def
  emprunt_1_def emprunt_2_def emprunt_3_def reservation_1_def reservation_2_def

lemmas chaine_defs = apres_second_emprunt_def apres_retour_tardif_def apres_second_retour_def

lemmas evaluation_defs = get_utilisateur_par_matricule_def get_livre_def is_suspended_def
  sauvegarder_def peut_emprunter_def trouver_exemplaire_def critere_exemplaire_def
  nettoyer_suspensions_def modifier_livre_def modifier_utilisateur_def
  mettre_a_jour_statut_def incrementer_compteur_def nombre_exemplaires_def
  exemplaires_disponibles_def est_disponible_def Emprunt_init_def valider_code_barre_def
  Emprunt_retourner_def Emprunt_statut_def enregistrer_emprunt_def enregistrer_retour_def
  traiter_file_def sauvegarder_reservations_def notifier_def timedelta_days_def jour_def
  days_def FACTEUR_SUSPENSION_def ajouter_jours_def datetime_min_def datetime_max_def Let_def

subsection \<open>A borrow that fails\<close>

lemma is_suspended_autres:
  "is_suspended t1 t2 m s = (r, s1) \<Longrightarrow>
     livres s1 = livres s \<and> utilisateurs s1 = utilisateurs s \<and> emprunts s1 = emprunts s \<and>
     reservations s1 = reservations s \<and> files s1 = files s \<and>
     fichier_reservations s1 = fichier_reservations s \<and>
     liv_gestion_reservation s1 = liv_gestion_reservation s \<and>
     emp_gestion_reservation s1 = emp_gestion_reservation s \<and>
     res_gestion_livre s1 = res_gestion_livre s \<and>
     res_gestion_emprunt s1 = res_gestion_emprunt s \<and>
     res_gestion_user s1 = res_gestion_user s"
  by (auto simp: is_suspended_def sauvegarder_def Let_def split: option.splits if_splits)

lemma is_suspended_suspensions:
  "is_suspended t1 t2 m s = (r, s1) \<Longrightarrow>
     suspensions s1 k = suspensions s k \<or>
     (suspensions s1 k = None \<and> (\<exists>fin. suspensions s k = Some fin \<and> (fin \<le> t1 \<or> fin \<le> t2)))"
  by (auto simp: is_suspended_def sauvegarder_def Let_def nettoyer_suspensions_def
      split: option.splits if_splits)

lemma emprunter_echec:
  assumes "emprunter s matricule isbn code_barre duree_jours nouvel_id h = (Inl err, s')"
  shows "s' = s \<or> s' = snd (is_suspended (le_verification h) (le_purge h) matricule s)"
  using assms
  by (cases "is_suspended (le_verification h) (le_purge h) matricule s")
     (auto simp: emprunter_def Let_def split: option.splits if_splits sum.splits)

lemma emprunter_echec_autres:
  assumes "emprunter s matricule isbn code_barre duree_jours nouvel_id h = (Inl err, s')"
  shows "livres s' = livres s" "utilisateurs s' = utilisateurs s" "emprunts s' = emprunts s"
    "reservations s' = reservations s" "files s' = files s"
    "fichier_reservations s' = fichier_reservations s"
proof -
  obtain r s1 where i: "is_suspended (le_verification h) (le_purge h) matricule s = (r, s1)"
    by (cases "is_suspended (le_verification h) (le_purge h) matricule s")
  from emprunter_echec [OF assms] i have "s' = s \<or> s' = s1" by simp
  then show "livres s' = livres s" "utilisateurs s' = utilisateurs s" "emprunts s' = emprunts s"
    "reservations s' = reservations s" "files s' = files s"
    "fichier_reservations s' = fichier_reservations s"
    using is_suspended_autres [OF i] by auto
qed

subsection \<open>Books and their copies\<close>

lemma filter_non_vide: "0 < length (filter P xs) \<longleftrightarrow> (\<exists>x \<in> set xs. P x)"
  by (simp add: filter_empty_conv)

lemma est_disponible_iff:
  "est_disponible l \<longleftrightarrow> (\<exists>ex \<in> set (l_exemplaires l). ex_statut ex = DISPONIBLE)"
  unfolding est_disponible_def exemplaires_disponibles_def by (rule filter_non_vide)

lemma statut_coherent_maj: "statut_coherent (mettre_a_jour_statut l)"
proof -
  have a: "0 < exemplaires_disponibles l \<longleftrightarrow> (\<exists>ex \<in> set (l_exemplaires l). ex_statut ex = DISPONIBLE)"
    unfolding exemplaires_disponibles_def by (rule filter_non_vide)
  show ?thesis
    unfolding statut_coherent_def mettre_a_jour_statut_def nombre_exemplaires_def a
    by auto
qed

lemma isbn_maj: "l_isbn (mettre_a_jour_statut l) = l_isbn l"
  by (simp add: mettre_a_jour_statut_def)

lemma find_maj_premier:
  "(\<And>x. P x \<Longrightarrow> P (f x)) \<Longrightarrow> find P (maj_premier P f xs) = map_option f (find P xs)"
  by (induction xs) auto

lemma get_livre_modifier_livre:
  "(\<And>l. l_isbn (f l) = l_isbn l) \<Longrightarrow>
     get_livre (modifier_livre isbn f s) isbn = map_option f (get_livre s isbn)"
  by (simp add: get_livre_def modifier_livre_def find_maj_premier)

lemma livres_sauvegarder: "livres (sauvegarder now s) = livres s"
  by (simp add: sauvegarder_def Let_def)

lemma livres_modifier_utilisateur: "livres (modifier_utilisateur m f s) = livres s"
  by (simp add: modifier_utilisateur_def)

lemma get_livre_cong: "livres s' = livres s \<Longrightarrow> get_livre s' isbn = get_livre s isbn"
  by (simp add: get_livre_def)

lemma traiter_file_autres:
  "livres (snd (traiter_file isbn s)) = livres s \<and>
   utilisateurs (snd (traiter_file isbn s)) = utilisateurs s \<and>
   emprunts (snd (traiter_file isbn s)) = emprunts s \<and>
   suspensions (snd (traiter_file isbn s)) = suspensions s \<and>
   fichier_emprunts (snd (traiter_file isbn s)) = fichier_emprunts s"
  by (simp add: traiter_file_def sauvegarder_reservations_def Let_def notifier_def
      split: option.split list.split)

lemma isbn_Livre_ajouter: "l_isbn (Livre_ajouter_exemplaire ex l) = l_isbn l"
  by (simp add: Livre_ajouter_exemplaire_def isbn_maj)

lemma isbn_Livre_retirer: "l_isbn (snd (Livre_retirer_exemplaire cb l)) = l_isbn l"
  by (simp add: Livre_retirer_exemplaire_def isbn_maj split: option.split)

lemma coherent_Livre_ajouter: "statut_coherent (Livre_ajouter_exemplaire ex l)"
  by (simp add: Livre_ajouter_exemplaire_def statut_coherent_maj)

lemma coherent_Livre_retirer:
  "fst (Livre_retirer_exemplaire cb l) \<Longrightarrow> statut_coherent (snd (Livre_retirer_exemplaire cb l))"
  by (cases "find (\<lambda>ex. ex_code_barre ex = cb) (l_exemplaires l)")
     (simp_all add: Livre_retirer_exemplaire_def statut_coherent_maj)

lemma ajouter_exemplaire_livres:
  assumes "fst (ajouter_exemplaire s isbn ex) = Inr ()"
  shows "get_livre s isbn \<noteq> None \<and>
         livres (snd (ajouter_exemplaire s isbn ex)) =
           livres (modifier_livre isbn (Livre_ajouter_exemplaire ex) s)"
proof (cases "get_livre s isbn")
  case None
  with assms show ?thesis by (simp add: ajouter_exemplaire_def)
next
  case (Some l0)
  show ?thesis
  proof (cases "code_barre_existe s (ex_code_barre ex)")
    case True
    with assms Some show ?thesis by (simp add: ajouter_exemplaire_def)
  next
    case False
    with Some show ?thesis
      by (simp add: ajouter_exemplaire_def Let_def traiter_file_autres)
  qed
qed

lemma ajouter_exemplaire_livre:
  assumes "fst (ajouter_exemplaire s isbn ex) = Inr ()"
  shows "\<exists>l. get_livre (snd (ajouter_exemplaire s isbn ex)) isbn = Some l \<and> statut_coherent l"
proof -
  from ajouter_exemplaire_livres [OF assms] obtain l0 where l0: "get_livre s isbn = Some l0"
    and l: "livres (snd (ajouter_exemplaire s isbn ex)) =
           livres (modifier_livre isbn (Livre_ajouter_exemplaire ex) s)"
    by auto
  have "get_livre (modifier_livre isbn (Livre_ajouter_exemplaire ex) s) isbn =
          map_option (Livre_ajouter_exemplaire ex) (get_livre s isbn)"
    by (rule get_livre_modifier_livre) (rule isbn_Livre_ajouter)
  then have "get_livre (snd (ajouter_exemplaire s isbn ex)) isbn = Some (Livre_ajouter_exemplaire ex l0)"
    using l0 get_livre_cong [OF l] by simp
  then show ?thesis by (simp add: coherent_Livre_ajouter)
qed

lemma retirer_exemplaire_livre:
  assumes "fst (retirer_exemplaire s isbn cb)"
  shows "\<exists>l. get_livre (snd (retirer_exemplaire s isbn cb)) isbn = Some l \<and> statut_coherent l"
proof (cases "get_livre s isbn")
  case None
  with assms show ?thesis by (simp add: retirer_exemplaire_def)
next
  case (Some l0)
  with assms have ok: "fst (Livre_retirer_exemplaire cb l0)"
    by (simp add: retirer_exemplaire_def)
  have s': "snd (retirer_exemplaire s isbn cb) =
          modifier_livre isbn (\<lambda>l. snd (Livre_retirer_exemplaire cb l)) s"
    using Some by (simp add: retirer_exemplaire_def)
  have "get_livre (modifier_livre isbn (\<lambda>l. snd (Livre_retirer_exemplaire cb l)) s) isbn =
          map_option (\<lambda>l. snd (Livre_retirer_exemplaire cb l)) (get_livre s isbn)"
    by (rule get_livre_modifier_livre) (rule isbn_Livre_retirer)
  then have "get_livre (snd (retirer_exemplaire s isbn cb)) isbn =
          Some (snd (Livre_retirer_exemplaire cb l0))"
    using Some s' by simp
  then show ?thesis using ok by (simp add: coherent_Livre_retirer)
qed

lemma livres_is_suspended: "livres (snd (is_suspended t1 t2 m s)) = livres s"
  by (simp add: is_suspended_def livres_sauvegarder split: option.split)

lemma emprunter_succes_livres:
  assumes "fst (emprunter s matricule isbn code_barre duree_jours nouvel_id h) = Inr e"
  shows "get_livre s isbn \<noteq> None \<and>
         livres (snd (emprunter s matricule isbn code_barre duree_jours nouvel_id h)) =
           livres (modifier_livre isbn
              (\<lambda>l. mettre_a_jour_statut (incrementer_compteur
                 (l\<lparr>l_exemplaires := maj_premier (critere_exemplaire code_barre)
                      (\<lambda>ex. ex\<lparr>ex_statut := EMPRUNTE\<rparr>) (l_exemplaires l)\<rparr>))) s)"
proof -
  obtain r s1 where i: "is_suspended (le_verification h) (le_purge h) matricule s = (r, s1)"
    by (cases "is_suspended (le_verification h) (le_purge h) matricule s")
  have l: "livres s1 = livres s"
    using livres_is_suspended [of "le_verification h" "le_purge h" matricule s] i by simp
  then have g: "get_livre s1 isbn = get_livre s isbn" by (rule get_livre_cong)
  show ?thesis
    using assms i
    by (auto simp: emprunter_def Let_def g l modifier_livre_def livres_sauvegarder
        livres_modifier_utilisateur split: option.splits if_splits sum.splits)
qed

lemma emprunter_livre:
  assumes "fst (emprunter s matricule isbn code_barre duree_jours nouvel_id h) = Inr e"
  shows "\<exists>l. get_livre (snd (emprunter s matricule isbn code_barre duree_jours nouvel_id h)) isbn
               = Some l \<and> statut_coherent l"
proof -
  let ?f = "\<lambda>l. mettre_a_jour_statut (incrementer_compteur
              (l\<lparr>l_exemplaires := maj_premier (critere_exemplaire code_barre)
                   (\<lambda>ex. ex\<lparr>ex_statut := EMPRUNTE\<rparr>) (l_exemplaires l)\<rparr>))"
  from emprunter_succes_livres [OF assms] obtain l0 where l0: "get_livre s isbn = Some l0"
    and l: "livres (snd (emprunter s matricule isbn code_barre duree_jours nouvel_id h)) =
              livres (modifier_livre isbn ?f s)"
    by auto
  have "get_livre (modifier_livre isbn ?f s) isbn = map_option ?f (get_livre s isbn)"
    by (rule get_livre_modifier_livre) (simp add: isbn_maj incrementer_compteur_def)
  then have "get_livre (snd (emprunter s matricule isbn code_barre duree_jours nouvel_id h)) isbn
      = Some (?f l0)"
    using l0 get_livre_cong [OF l] by simp
  then show ?thesis by (simp add: statut_coherent_maj)
qed

lemma retourner_livre:
  assumes "map_of (emprunts s) id_emprunt = Some e0" and "e_date_retour e0 = None"
      and "get_livre (snd (retourner s id_emprunt h)) (e_isbn e0) = Some l"
  shows "statut_coherent l"
proof -
  let ?f = "\<lambda>l. mettre_a_jour_statut
              (l\<lparr>l_exemplaires := maj_premier (\<lambda>ex. ex_code_barre ex = e_code_barre e0)
                   (\<lambda>ex. ex\<lparr>ex_statut := DISPONIBLE\<rparr>) (l_exemplaires l)\<rparr>)"
  have f: "\<And>l. l_isbn (?f l) = l_isbn l" by (simp add: isbn_maj)
  have "livres (snd (retourner s id_emprunt h)) =
          (case get_livre s (e_isbn e0) of
             None \<Rightarrow> livres s
           | Some _ \<Rightarrow> livres (modifier_livre (e_isbn e0) ?f s))"
    using assms(1,2)
    by (simp add: retourner_def Let_def Emprunt_retourner_def get_livre_def modifier_livre_def
        modifier_utilisateur_def traiter_file_autres sauvegarder_def
        split: option.split)
  then have "get_livre (snd (retourner s id_emprunt h)) (e_isbn e0) =
          map_option ?f (get_livre s (e_isbn e0))"
    using get_livre_modifier_livre [of ?f "e_isbn e0" s, OF f]
    by (cases "get_livre s (e_isbn e0)") (simp_all add: get_livre_def)
  with assms(3) show ?thesis by (auto simp: statut_coherent_maj)
qed

subsection \<open>Returning late\<close>







subsection \<open>Penalties\<close>

lemma penaliser_append:
  "penaliser now (xs @ ys) susp = penaliser now ys (penaliser now xs susp)"
  by (induction xs arbitrary: susp) simp_all

lemma penaliser_inchange:
  "(\<forall>e \<in> set ys. e_matricule_user e = m \<longrightarrow> \<not> 1 \<le> days (now - e_date_echeance e)) \<Longrightarrow>
     penaliser now ys susp m = susp m"
  by (induction ys arbitrary: susp) (auto simp: Let_def)

lemma retard_un_jour: "1 \<le> days (now - d) \<Longrightarrow> d < now"
proof -
  assume "1 \<le> days (now - d)"
  then have "0 < (now - d) div jour" by (simp add: days_def)
  then have "jour \<le> now - d" using jour_positif by (simp add: pos_imp_zdiv_pos_iff)
  then show ?thesis using jour_positif by simp
qed

lemma lister_en_cours_decoupe:
  "emprunts s = avant @ (k, e) # apres \<Longrightarrow> e_date_retour e = None \<Longrightarrow>
     lister_en_cours s =
       filter (\<lambda>e. e_date_retour e = None) (map snd avant) @
       e # filter (\<lambda>e. e_date_retour e = None) (map snd apres)"
  by (simp add: lister_en_cours_def)

subsection \<open>Reserving\<close>

lemma reserver_succes:
  assumes "fst (reserver s matricule_user isbn nouvel_id now) = Inr r"
  shows "r = \<lparr>r_id = nouvel_id, r_matricule_user = matricule_user, r_isbn = isbn,
               r_date_reservation = now, r_statut = STATUT_EN_ATTENTE\<rparr>"
    and "snd (reserver s matricule_user isbn nouvel_id now) =
           sauvegarder_reservations
             (ajouter_a_file isbn (r_id r)
                (s\<lparr>reservations := AList.update (r_id r) r (reservations s)\<rparr>))"
  using assms
  by (auto simp: reserver_def Reservation_init_def split: if_splits)

lemma reserver_succes_etat:
  assumes "fst (reserver s matricule_user isbn nouvel_id now) = Inr r"
  shows "map_of (reservations (snd (reserver s matricule_user isbn nouvel_id now))) (r_id r) = Some r"
    and "files (snd (reserver s matricule_user isbn nouvel_id now)) isbn =
           Some ((case files s isbn of None \<Rightarrow> [] | Some q \<Rightarrow> q) @ [r_id r])"
  by (simp_all add: reserver_succes(2) [OF assms] sauvegarder_reservations_def ajouter_a_file_def
      update_conv')

subsection \<open>Renewal\<close>

lemma peut_renouveler_iff:
  "peut_renouveler now e \<longleftrightarrow>
     e_date_retour e = None \<and> \<not> now > e_date_echeance e \<and> e_renouvellements e < 2"
  by (auto simp: peut_renouveler_def est_en_retard_def MAX_RENOUVELLEMENTS_def)

lemma Emprunt_renouveler_cas:
  "Emprunt_renouveler now e jours =
     (if \<not> peut_renouveler now e then Inr (False, e)
      else if \<not> echeance_representable (e_date_echeance e) jours then Inl OverflowError
      else Inr (True, e\<lparr>e_date_echeance := e_date_echeance e + jours * jour,
                        e_renouvellements := e_renouvellements e + 1\<rparr>))"
proof (cases "ajouter_jours (e_date_echeance e) jours")
  case None
  moreover from None have "\<not> echeance_representable (e_date_echeance e) jours"
    by (simp add: ajouter_jours_None)
  ultimately show ?thesis by (simp add: Emprunt_renouveler_def)
next
  case (Some r)
  moreover from Some
  have "echeance_representable (e_date_echeance e) jours \<and> r = e_date_echeance e + jours * jour"
    by (simp add: ajouter_jours_Some)
  ultimately show ?thesis by (simp add: Emprunt_renouveler_def)
qed

lemma renouveler_connu:
  "map_of (emprunts s) id_emprunt = Some e \<Longrightarrow>
   renouveler s id_emprunt jours h =
     (if \<not> peut_renouveler (ln_retard h) e then (Inr False, s)
      else if \<not> echeance_representable (e_date_echeance e) jours then (Inl OverflowError, s)
      else (Inr True, sauvegarder (ln_sauvegarde h)
              (s\<lparr>emprunts := AList.update id_emprunt
                    (e\<lparr>e_date_echeance := e_date_echeance e + jours * jour,
                       e_renouvellements := e_renouvellements e + 1\<rparr>) (emprunts s)\<rparr>)))"
  by (simp add: renouveler_def Emprunt_renouveler_cas)

lemma renouveler_succes:
  assumes "map_of (emprunts s) id_emprunt = Some e"
      and "fst (renouveler s id_emprunt jours h) = Inr True"
  shows "map_of (emprunts (snd (renouveler s id_emprunt jours h))) id_emprunt =
           Some (e\<lparr>e_date_echeance := e_date_echeance e + jours * jour,
                   e_renouvellements := e_renouvellements e + 1\<rparr>)"
    and "fichier_emprunts (snd (renouveler s id_emprunt jours h)) =
           Some (map (\<lambda>(k, e). Emprunt_data_format (ln_sauvegarde h) e)
                   (emprunts (snd (renouveler s id_emprunt jours h))),
                 suspensions (snd (renouveler s id_emprunt jours h)))"
proof -
  have ok: "peut_renouveler (ln_retard h) e \<and> echeance_representable (e_date_echeance e) jours"
    using assms by (simp add: renouveler_connu split: if_splits)
  then have s': "snd (renouveler s id_emprunt jours h) = sauvegarder (ln_sauvegarde h)
              (s\<lparr>emprunts := AList.update id_emprunt
                    (e\<lparr>e_date_echeance := e_date_echeance e + jours * jour,
                       e_renouvellements := e_renouvellements e + 1\<rparr>) (emprunts s)\<rparr>)"
    using assms(1) by (simp add: renouveler_connu)
  show "map_of (emprunts (snd (renouveler s id_emprunt jours h))) id_emprunt =
           Some (e\<lparr>e_date_echeance := e_date_echeance e + jours * jour,
                   e_renouvellements := e_renouvellements e + 1\<rparr>)"
    by (simp add: s' emprunts_sauvegarder map_of_update_meme)
  show "fichier_emprunts (snd (renouveler s id_emprunt jours h)) =
           Some (map (\<lambda>(k, e). Emprunt_data_format (ln_sauvegarde h) e)
                   (emprunts (snd (renouveler s id_emprunt jours h))),
                 suspensions (snd (renouveler s id_emprunt jours h)))"
    unfolding s' by (rule fichier_sauvegarder)
qed

section \<open>Renewing a loan\<close>

text \<open>
  Claim C3, as stated, fails for an extension that takes the due date out of the
  range of \<open>datetime\<close>: the loan can be renewed, and \<open>renouveler\<close> neither returns
  \<open>True\<close> nor \<open>False\<close>, it raises \<open>OverflowError\<close>. In the example library, the first
  loan is out, not late on day 1 and was never renewed; four million days are asked
  for.
\<close>

theorem renouveler_counterexample:
  "map_of (emprunts bibliotheque) ''EMP-AAAAAAA1'' = Some emprunt_1 \<and>
   e_date_retour emprunt_1 = None \<and>
   86400000000 \<le> e_date_echeance emprunt_1 \<and>
   e_renouvellements emprunt_1 < 2 \<and>
   renouveler bibliotheque ''EMP-AAAAAAA1'' 4000000
     \<lparr>ln_retard = 86400000000, ln_sauvegarde = 86400000001\<rparr>
   = (Inl OverflowError, bibliotheque)"
proof -
  have a: "map_of (emprunts bibliotheque) ''EMP-AAAAAAA1'' = Some emprunt_1"
    by (simp add: bibliotheque_def)
  have b: "e_date_retour emprunt_1 = None" "86400000000 \<le> e_date_echeance emprunt_1"
    "e_renouvellements emprunt_1 < 2"
    by (simp_all add: emprunt_1_def)
  have c: "\<not> echeance_representable (e_date_echeance emprunt_1) 4000000"
    by (simp add: echeance_representable_def emprunt_1_def jour_def datetime_max_def)
  have "renouveler bibliotheque ''EMP-AAAAAAA1'' 4000000
     \<lparr>ln_retard = 86400000000, ln_sauvegarde = 86400000001\<rparr> = (Inl OverflowError, bibliotheque)"
    using b c by (simp add: renouveler_connu [OF a] peut_renouveler_iff)
  then show ?thesis using a b by simp
qed

text \<open>
  Claim C3, amended. \<open>renouveler\<close> on an id that is not in the loan table raises
  \<open>EmpruntNonTrouve\<close> and changes nothing. On a known loan it returns \<open>True\<close> exactly
  when the loan is not returned, the clock is not past the due date, the loan was
  renewed fewer than two times and the new due date is one a \<open>datetime\<close> can hold
  (\<open>echeance_representable\<close>); it then moves the due date by the given number of days,
  adds one to the counter and writes the loan file. On a loan that can be renewed but
  whose new due date is out of range it raises \<open>OverflowError\<close>, and on a loan that
  cannot be renewed it returns \<open>False\<close>; both leave the state as it was. A loan whose
  counter is not negative (it starts at zero and only grows) cannot be renewed a third
  time: after two calls that returned \<open>True\<close>, any further call returns \<open>False\<close> and
  changes nothing.
\<close>

theorem renouveler_regle:
  "(map_of (emprunts s) id_emprunt = None \<longrightarrow>
      renouveler s id_emprunt jours h = (Inl EmpruntNonTrouve, s)) \<and>
   (\<forall>e. map_of (emprunts s) id_emprunt = Some e \<longrightarrow>
      (fst (renouveler s id_emprunt jours h) = Inr True \<longleftrightarrow>
         e_date_retour e = None \<and> \<not> ln_retard h > e_date_echeance e \<and> e_renouvellements e < 2 \<and>
         echeance_representable (e_date_echeance e) jours) \<and>
      (fst (renouveler s id_emprunt jours h) = Inr True \<longrightarrow>
         map_of (emprunts (snd (renouveler s id_emprunt jours h))) id_emprunt =
           Some (e\<lparr>e_date_echeance := e_date_echeance e + jours * jour,
                   e_renouvellements := e_renouvellements e + 1\<rparr>) \<and>
         fichier_emprunts (snd (renouveler s id_emprunt jours h)) =
           Some (map (\<lambda>(k, e). Emprunt_data_format (ln_sauvegarde h) e)
                   (emprunts (snd (renouveler s id_emprunt jours h))),
                 suspensions (snd (renouveler s id_emprunt jours h)))) \<and>
      (e_date_retour e = None \<and> \<not> ln_retard h > e_date_echeance e \<and> e_renouvellements e < 2 \<and>
       \<not> echeance_representable (e_date_echeance e) jours \<longrightarrow>
         renouveler s id_emprunt jours h = (Inl OverflowError, s)) \<and>
      (\<not> (e_date_retour e = None \<and> \<not> ln_retard h > e_date_echeance e \<and>
           e_renouvellements e < 2) \<longrightarrow>
         renouveler s id_emprunt jours h = (Inr False, s)) \<and>
      (\<forall>j1 h1 s1 j2 h2 s2.
         0 \<le> e_renouvellements e \<and>
         renouveler s id_emprunt j1 h1 = (Inr True, s1) \<and>
         renouveler s1 id_emprunt j2 h2 = (Inr True, s2) \<longrightarrow>
         renouveler s2 id_emprunt jours h = (Inr False, s2)))"
proof (intro conjI allI impI)
  show "renouveler s id_emprunt jours h = (Inl EmpruntNonTrouve, s)"
    if "map_of (emprunts s) id_emprunt = None"
    using that by (simp add: renouveler_def)
next
  fix e assume e: "map_of (emprunts s) id_emprunt = Some e"
  show "fst (renouveler s id_emprunt jours h) = Inr True \<longleftrightarrow>
         e_date_retour e = None \<and> \<not> ln_retard h > e_date_echeance e \<and> e_renouvellements e < 2 \<and>
         echeance_representable (e_date_echeance e) jours"
    by (simp add: renouveler_connu [OF e] peut_renouveler_iff)
  show "renouveler s id_emprunt jours h = (Inl OverflowError, s)"
    if "e_date_retour e = None \<and> \<not> ln_retard h > e_date_echeance e \<and> e_renouvellements e < 2 \<and>
       \<not> echeance_representable (e_date_echeance e) jours"
    using that by (simp add: renouveler_connu [OF e] peut_renouveler_iff)
  show "renouveler s id_emprunt jours h = (Inr False, s)"
    if "\<not> (e_date_retour e = None \<and> \<not> ln_retard h > e_date_echeance e \<and>
           e_renouvellements e < 2)"
    using that by (simp add: renouveler_connu [OF e] peut_renouveler_iff)
  {
    assume r: "fst (renouveler s id_emprunt jours h) = Inr True"
    show "map_of (emprunts (snd (renouveler s id_emprunt jours h))) id_emprunt =
           Some (e\<lparr>e_date_echeance := e_date_echeance e + jours * jour,
                   e_renouvellements := e_renouvellements e + 1\<rparr>)"
      by (rule renouveler_succes(1) [OF e r])
    show "fichier_emprunts (snd (renouveler s id_emprunt jours h)) =
           Some (map (\<lambda>(k, e). Emprunt_data_format (ln_sauvegarde h) e)
                   (emprunts (snd (renouveler s id_emprunt jours h))),
                 suspensions (snd (renouveler s id_emprunt jours h)))"
      by (rule renouveler_succes(2) [OF e r])
  }
  fix j1 h1 s1 j2 h2 s2
  assume a: "0 \<le> e_renouvellements e \<and>
         renouveler s id_emprunt j1 h1 = (Inr True, s1) \<and>
         renouveler s1 id_emprunt j2 h2 = (Inr True, s2)"
  let ?e1 = "e\<lparr>e_date_echeance := e_date_echeance e + j1 * jour,
                   e_renouvellements := e_renouvellements e + 1\<rparr>"
  let ?e2 = "?e1\<lparr>e_date_echeance := e_date_echeance ?e1 + j2 * jour,
                   e_renouvellements := e_renouvellements ?e1 + 1\<rparr>"
  from a have r1: "fst (renouveler s id_emprunt j1 h1) = Inr True"
    and s1: "s1 = snd (renouveler s id_emprunt j1 h1)" by simp_all
  have e1: "map_of (emprunts s1) id_emprunt = Some ?e1"
    unfolding s1 by (rule renouveler_succes(1) [OF e r1])
  from a have r2: "fst (renouveler s1 id_emprunt j2 h2) = Inr True"
    and s2: "s2 = snd (renouveler s1 id_emprunt j2 h2)" by simp_all
  have e2: "map_of (emprunts s2) id_emprunt = Some ?e2"
    unfolding s2 by (rule renouveler_succes(1) [OF e1 r2])
  have "\<not> e_renouvellements ?e2 < 2" using a by simp
  then show "renouveler s2 id_emprunt jours h = (Inr False, s2)"
    by (simp add: renouveler_connu [OF e2] peut_renouveler_iff)
qed

text \<open>
  In the example library the first loan is renewed twice for seven days on day 1 and
  day 2; the third request, made on day 3, is refused. A loan id that is not in the
  table is an error.
\<close>

theorem renouveler_regle_witness:
  "renouveler bibliotheque ''EMP-AAAAAAA9'' 7 \<lparr>ln_retard = 86400000000, ln_sauvegarde = 86400000001\<rparr>
     = (Inl EmpruntNonTrouve, bibliotheque) \<and>
   fst (renouveler bibliotheque ''EMP-AAAAAAA1'' 7
          \<lparr>ln_retard = 86400000000, ln_sauvegarde = 86400000001\<rparr>) = Inr True \<and>
   map_of (emprunts (snd (renouveler bibliotheque ''EMP-AAAAAAA1'' 7
          \<lparr>ln_retard = 86400000000, ln_sauvegarde = 86400000001\<rparr>))) ''EMP-AAAAAAA1'' =
     Some (emprunt_1\<lparr>e_date_echeance := 1814400000000, e_renouvellements := 1\<rparr>) \<and>
   fst (renouveler
          (snd (renouveler
             (snd (renouveler bibliotheque ''EMP-AAAAAAA1'' 7
                \<lparr>ln_retard = 86400000000, ln_sauvegarde = 86400000001\<rparr>))
             ''EMP-AAAAAAA1'' 7 \<lparr>ln_retard = 172800000000, ln_sauvegarde = 172800000001\<rparr>))
          ''EMP-AAAAAAA1'' 7 \<lparr>ln_retard = 259200000000, ln_sauvegarde = 259200000001\<rparr>)
     = Inr False"
proof -
  let ?h1 = "\<lparr>ln_retard = 86400000000, ln_sauvegarde = 86400000001\<rparr>"
  let ?h2 = "\<lparr>ln_retard = 172800000000, ln_sauvegarde = 172800000001\<rparr>"
  let ?h3 = "\<lparr>ln_retard = 259200000000, ln_sauvegarde = 259200000001\<rparr>"
  let ?id = "''EMP-AAAAAAA1''"
  let ?s1 = "snd (renouveler bibliotheque ?id 7 ?h1)"
  let ?s2 = "snd (renouveler ?s1 ?id 7 ?h2)"
  let ?e1 = "emprunt_1\<lparr>e_date_echeance := 1814400000000, e_renouvellements := 1\<rparr>"
  have absent: "map_of (emprunts bibliotheque) ''EMP-AAAAAAA9'' = None"
    by (simp add: bibliotheque_def)
  have e0: "map_of (emprunts bibliotheque) ?id = Some emprunt_1"
    by (simp add: bibliotheque_def)
  have c0: "e_date_retour emprunt_1 = None" "e_date_echeance emprunt_1 = 1209600000000"
    "e_renouvellements emprunt_1 = 0"
    by (simp_all add: emprunt_1_def)
  have p0: "echeance_representable 1209600000000 7" "echeance_representable 1814400000000 7"
    by (simp_all add: echeance_representable_def jour_def datetime_min_def datetime_max_def)
  note r0 = renouveler_regle [of bibliotheque ?id 7 ?h1]
  have ok1: "fst (renouveler bibliotheque ?id 7 ?h1) = Inr True"
    using r0 e0 c0 p0 by simp
  have e1: "map_of (emprunts ?s1) ?id = Some ?e1"
    using r0 e0 ok1 c0 by (simp add: jour_def)
  note r1 = renouveler_regle [of ?s1 ?id 7 ?h2]
  have ok2: "fst (renouveler ?s1 ?id 7 ?h2) = Inr True"
    using r1 e1 c0 p0 by simp
  have "renouveler ?s2 ?id 7 ?h3 = (Inr False, ?s2)"
  proof -
    have a: "0 \<le> e_renouvellements emprunt_1" using c0 by simp
    have b: "renouveler bibliotheque ?id 7 ?h1 = (Inr True, ?s1)"
      using ok1 by (metis prod.collapse)
    have c: "renouveler ?s1 ?id 7 ?h2 = (Inr True, ?s2)"
      using ok2 by (metis prod.collapse)
    from renouveler_regle [of bibliotheque ?id 7 ?h3] e0 a b c show ?thesis
      by blast
  qed
  then have ko3: "fst (renouveler ?s2 ?id 7 ?h3) = Inr False" by simp
  have "renouveler bibliotheque ''EMP-AAAAAAA9'' 7 ?h1 = (Inl EmpruntNonTrouve, bibliotheque)"
    using renouveler_regle [of bibliotheque "''EMP-AAAAAAA9''" 7 ?h1] absent by blast
  then show ?thesis using ok1 e1 ko3 by simp
qed

section \<open>Returning twice, returning an unknown loan\<close>

text \<open>
  Claim C8. \<open>retourner\<close> on an id that is not in the loan table raises
  \<open>EmpruntNonTrouve\<close>. On a loan that already has a return date it returns that loan,
  and the state after the call is the state before it: the loans, the books and their
  copies, the members, the suspensions, the reservations and their queues.
\<close>

theorem retourner_sans_effet:
  "(map_of (emprunts s) id_emprunt = None \<longrightarrow>
      retourner s id_emprunt h = (Inl EmpruntNonTrouve, s)) \<and>
   (\<forall>e. map_of (emprunts s) id_emprunt = Some e \<and> e_date_retour e \<noteq> None \<longrightarrow>
      retourner s id_emprunt h = (Inr e, s))"
  by (auto simp: retourner_def)

text \<open>In the example library, an unknown id and the third loan, returned on day 1.\<close>

theorem retourner_sans_effet_witness:
  "retourner bibliotheque ''EMP-AAAAAAA9''
     \<lparr>lr_retour = 1, lr_historique = 2, lr_suspension = 3, lr_sauvegarde = 4\<rparr>
     = (Inl EmpruntNonTrouve, bibliotheque) \<and>
   retourner bibliotheque ''EMP-AAAAAAA3''
     \<lparr>lr_retour = 1, lr_historique = 2, lr_suspension = 3, lr_sauvegarde = 4\<rparr>
     = (Inr emprunt_3, bibliotheque)"
proof -
  have a: "map_of (emprunts bibliotheque) ''EMP-AAAAAAA9'' = None"
    by (simp add: bibliotheque_def)
  have b: "map_of (emprunts bibliotheque) ''EMP-AAAAAAA3'' = Some emprunt_3 \<and>
           e_date_retour emprunt_3 \<noteq> None"
    by (simp add: bibliotheque_def emprunt_3_def)
  show ?thesis
    using retourner_sans_effet [of bibliotheque "''EMP-AAAAAAA9''"]
      retourner_sans_effet [of bibliotheque "''EMP-AAAAAAA3''"] a b
    by blast
qed

section \<open>The states of a reservation\<close>

text \<open>
  Claim C5, as stated, has cancelling a confirmed reservation fail. It does not:
  \<open>annuler\<close> only tests for \<open>annule\<close>, so a confirmed reservation becomes cancelled.
\<close>

theorem annuler_confirme_counterexample:
  "changer Annuler \<lparr>r_id = ''RES-AAAAAAA1'', r_matricule_user = ''U-AAAAAAA2'',
       r_isbn = ''9780306406157'', r_date_reservation = 0, r_statut = STATUT_CONFIRME\<rparr>
   = Inr \<lparr>r_id = ''RES-AAAAAAA1'', r_matricule_user = ''U-AAAAAAA2'',
       r_isbn = ''9780306406157'', r_date_reservation = 0, r_statut = STATUT_ANNULE\<rparr>"
  by (simp add: annuler_reservation_def)

text \<open>
  Claim C5, amended. A method of \<open>Reservation\<close> that returns changes nothing but the
  status, and the status changes it makes are: waiting to notified (\<open>notifier\<close>),
  notified to confirmed (\<open>confirmer\<close>), and waiting, notified or confirmed to cancelled
  (\<open>annuler\<close>); \<open>annuler\<close> on a cancelled reservation changes nothing. The only
  failures are \<open>notifier\<close> on a reservation that is not waiting and \<open>confirmer\<close> on one
  that is not notified: both raise and leave the reservation as it was. \<open>annuler\<close>
  never fails.
\<close>

theorem transitions_reservation:
  "(case changer c r of
      Inr r' \<Rightarrow>
        r' = r\<lparr>r_statut := r_statut r'\<rparr> \<and>
        (if c = Annuler \<and> r_statut r = STATUT_ANNULE then r' = r
         else transition_permise (r_statut r) (r_statut r')) \<and>
        (c = Notifier \<longrightarrow> r_statut r = STATUT_EN_ATTENTE \<and> r_statut r' = STATUT_NOTIFIE) \<and>
        (c = Confirmer \<longrightarrow> r_statut r = STATUT_NOTIFIE \<and> r_statut r' = STATUT_CONFIRME) \<and>
        (c = Annuler \<longrightarrow> r_statut r' = STATUT_ANNULE)
    | Inl e \<Rightarrow>
        (c = Notifier \<and> r_statut r \<noteq> STATUT_EN_ATTENTE \<and> e = Notification_refusee) \<or>
        (c = Confirmer \<and> r_statut r \<noteq> STATUT_NOTIFIE \<and> e = Confirmation_refusee))"
  by (cases c; cases "r_statut r")
     (auto simp: notifier_def confirmer_reservation_def annuler_reservation_def
        transition_permise_def)

text \<open>
  The waiting reservation of the example library can be notified and cannot be
  confirmed; the notified one cannot be notified again.
\<close>

theorem transitions_reservation_witness:
  "changer Notifier reservation_2 = Inr (reservation_2\<lparr>r_statut := STATUT_NOTIFIE\<rparr>) \<and>
   transition_permise (r_statut reservation_2) STATUT_NOTIFIE \<and>
   changer Notifier reservation_1 = Inl Notification_refusee \<and>
   changer Confirmer reservation_2 = Inl Confirmation_refusee"
proof -
  have a: "r_statut reservation_2 = STATUT_EN_ATTENTE" "r_statut reservation_1 = STATUT_NOTIFIE"
    by (simp_all add: reservation_1_def reservation_2_def)
  have "changer Notifier reservation_2 = Inr (reservation_2\<lparr>r_statut := STATUT_NOTIFIE\<rparr>) \<and>
        transition_permise (r_statut reservation_2) STATUT_NOTIFIE"
    using transitions_reservation [of Notifier reservation_2] a
    by (cases "changer Notifier reservation_2") auto
  moreover have "changer Notifier reservation_1 = Inl Notification_refusee"
    using transitions_reservation [of Notifier reservation_1] a
    by (cases "changer Notifier reservation_1") auto
  moreover have "changer Confirmer reservation_2 = Inl Confirmation_refusee"
    using transitions_reservation [of Confirmer reservation_2] a
    by (cases "changer Confirmer reservation_2") auto
  ultimately show ?thesis by simp
qed

section \<open>Writing and reading back a loan or a reservation\<close>

text \<open>
  Claim C9, as stated, fails for a loan: \<open>data_format\<close> writes the dates with
  \<open>timespec='seconds'\<close>. A loan returned one microsecond after its due date is late
  (\<open>en_retard\<close>), and the loan read back, whose two dates fall in the same second, is
  on time (\<open>retourne\<close>). A loan that is out and due half a second after the start of
  a second is on time (\<open>emprunte\<close>) a quarter of a second earlier, and the loan read
  back, due at the start of that second, is late then.
\<close>

theorem aller_retour_counterexample:
  "Emprunt_from_dict (Emprunt_data_format 0
      \<lparr>e_id_emprunt = ''EMP-AAAAAAA4'', e_matricule_user = ''U-AAAAAAA1'',
       e_isbn = ''9780306406157'', e_code_barre = ''00002'', e_date_emprunt = 0,
       e_date_echeance = 1209600000000, e_date_retour = Some 1209600000001,
       e_renouvellements = 0\<rparr>)
   = Inr \<lparr>e_id_emprunt = ''EMP-AAAAAAA4'', e_matricule_user = ''U-AAAAAAA1'',
       e_isbn = ''9780306406157'', e_code_barre = ''00002'', e_date_emprunt = 0,
       e_date_echeance = 1209600000000, e_date_retour = Some 1209600000000,
       e_renouvellements = 0\<rparr> \<and>
   Emprunt_statut 0
      \<lparr>e_id_emprunt = ''EMP-AAAAAAA4'', e_matricule_user = ''U-AAAAAAA1'',
       e_isbn = ''9780306406157'', e_code_barre = ''00002'', e_date_emprunt = 0,
       e_date_echeance = 1209600000000, e_date_retour = Some 1209600000001,
       e_renouvellements = 0\<rparr> = ''en_retard'' \<and>
   Emprunt_statut 0
      \<lparr>e_id_emprunt = ''EMP-AAAAAAA4'', e_matricule_user = ''U-AAAAAAA1'',
       e_isbn = ''9780306406157'', e_code_barre = ''00002'', e_date_emprunt = 0,
       e_date_echeance = 1209600000000, e_date_retour = Some 1209600000000,
       e_renouvellements = 0\<rparr> = ''retourne'' \<and>
   Emprunt_from_dict (Emprunt_data_format 0
      \<lparr>e_id_emprunt = ''EMP-AAAAAAA5'', e_matricule_user = ''U-AAAAAAA1'',
       e_isbn = ''9780306406157'', e_code_barre = ''00002'', e_date_emprunt = 500000,
       e_date_echeance = 1209600500000, e_date_retour = None, e_renouvellements = 0\<rparr>)
   = Inr \<lparr>e_id_emprunt = ''EMP-AAAAAAA5'', e_matricule_user = ''U-AAAAAAA1'',
       e_isbn = ''9780306406157'', e_code_barre = ''00002'', e_date_emprunt = 0,
       e_date_echeance = 1209600000000, e_date_retour = None, e_renouvellements = 0\<rparr> \<and>
   Emprunt_statut 1209600250000
      \<lparr>e_id_emprunt = ''EMP-AAAAAAA5'', e_matricule_user = ''U-AAAAAAA1'',
       e_isbn = ''9780306406157'', e_code_barre = ''00002'', e_date_emprunt = 500000,
       e_date_echeance = 1209600500000, e_date_retour = None, e_renouvellements = 0\<rparr>
     = ''emprunte'' \<and>
   Emprunt_statut 1209600250000
      \<lparr>e_id_emprunt = ''EMP-AAAAAAA5'', e_matricule_user = ''U-AAAAAAA1'',
       e_isbn = ''9780306406157'', e_code_barre = ''00002'', e_date_emprunt = 0,
       e_date_echeance = 1209600000000, e_date_retour = None, e_renouvellements = 0\<rparr>
     = ''en_retard''"
  by (simp add: Emprunt_from_dict_def Emprunt_data_format_def Emprunt_statut_def
      valider_code_barre_def isoformat_seconds_def)

text \<open>
  Claim C9, amended. A loan (its barcode has five characters, as the constructor
  checks) is read back from what \<open>data_format\<close> wrote, with the same id, member,
  ISBN and barcode, and with its due and return dates cut to the second. Its status,
  read at any instant, is the original's except in the two cases where the dropped
  microseconds decide it (\<open>troncature_decisive\<close>), and in these it differs: a loan
  returned after its due date within the same second is read back as returned on
  time, and a loan that is out is read back as late while the clock is in the second
  of the due date, after the start of that second and not after the due date.
  A reservation (its id, member and ISBN are not empty, as the constructor ensures) is
  read back with the same id, member, ISBN and status.
\<close>

theorem aller_retour:
  "(valider_code_barre (e_code_barre e) \<longrightarrow>
      (\<exists>e'. Emprunt_from_dict (Emprunt_data_format now e) = Inr e' \<and>
            e_id_emprunt e' = e_id_emprunt e \<and>
            e_matricule_user e' = e_matricule_user e \<and>
            e_isbn e' = e_isbn e \<and>
            e_code_barre e' = e_code_barre e \<and>
            e_date_echeance e' = isoformat_seconds (e_date_echeance e) \<and>
            e_date_retour e' = map_option isoformat_seconds (e_date_retour e) \<and>
            (Emprunt_statut t e' = Emprunt_statut t e \<longleftrightarrow> \<not> troncature_decisive t e))) \<and>
   (r_id r \<noteq> [] \<and> r_matricule_user r \<noteq> [] \<and> r_isbn r \<noteq> [] \<longrightarrow>
      (\<exists>r'. Reservation_from_dict (Reservation_data_format r) nouvel_id now' = Inr r' \<and>
            r_id r' = r_id r \<and>
            r_matricule_user r' = r_matricule_user r \<and>
            r_isbn r' = r_isbn r \<and>
            r_statut r' = r_statut r))"
proof (intro conjI impI)
  assume v: "valider_code_barre (e_code_barre e)"
  let ?e' = "\<lparr>e_id_emprunt = e_id_emprunt e, e_matricule_user = e_matricule_user e,
              e_isbn = e_isbn e, e_code_barre = e_code_barre e,
              e_date_emprunt = isoformat_seconds (e_date_emprunt e),
              e_date_echeance = isoformat_seconds (e_date_echeance e),
              e_date_retour = map_option isoformat_seconds (e_date_retour e),
              e_renouvellements = e_renouvellements e\<rparr>"
  have lu: "Emprunt_from_dict (Emprunt_data_format now e) = Inr ?e'"
    using v by (simp add: Emprunt_from_dict_def Emprunt_data_format_def)
  have st: "Emprunt_statut t ?e' = Emprunt_statut t e \<longleftrightarrow> \<not> troncature_decisive t e"
  proof (cases "e_date_retour e")
    case None
    have "t > e_date_echeance e \<Longrightarrow> t > isoformat_seconds (e_date_echeance e)"
      using isoformat_seconds_le [of "e_date_echeance e"] by simp
    then show ?thesis
      using None by (auto simp: Emprunt_statut_def troncature_decisive_def)
  next
    case (Some d)
    show ?thesis
    proof (cases "d \<le> e_date_echeance e")
      case True
      then have "isoformat_seconds d \<le> isoformat_seconds (e_date_echeance e)"
        by (rule isoformat_seconds_mono)
      with True Some show ?thesis
        by (simp add: Emprunt_statut_def troncature_decisive_def)
    next
      case False
      then have "isoformat_seconds (e_date_echeance e) \<le> isoformat_seconds d"
        by (intro isoformat_seconds_mono) simp
      with False Some show ?thesis
        by (auto simp: Emprunt_statut_def troncature_decisive_def)
    qed
  qed
  show "\<exists>e'. Emprunt_from_dict (Emprunt_data_format now e) = Inr e' \<and>
            e_id_emprunt e' = e_id_emprunt e \<and>
            e_matricule_user e' = e_matricule_user e \<and>
            e_isbn e' = e_isbn e \<and>
            e_code_barre e' = e_code_barre e \<and>
            e_date_echeance e' = isoformat_seconds (e_date_echeance e) \<and>
            e_date_retour e' = map_option isoformat_seconds (e_date_retour e) \<and>
            (Emprunt_statut t e' = Emprunt_statut t e \<longleftrightarrow> \<not> troncature_decisive t e)"
    using lu st by simp
next
  assume "r_id r \<noteq> [] \<and> r_matricule_user r \<noteq> [] \<and> r_isbn r \<noteq> []"
  then show "\<exists>r'. Reservation_from_dict (Reservation_data_format r) nouvel_id now' = Inr r' \<and>
            r_id r' = r_id r \<and>
            r_matricule_user r' = r_matricule_user r \<and>
            r_isbn r' = r_isbn r \<and>
            r_statut r' = r_statut r"
    by (simp add: Reservation_from_dict_def Reservation_data_format_def Reservation_init_def
        statut_depuis_valeur_inverse)
qed

text \<open>
  The first loan of the example library, returned five days and one microsecond late,
  is read back late, with its return date cut to the second; the notified reservation
  is read back notified.
\<close>

theorem aller_retour_witness:
  "(\<exists>e'. Emprunt_from_dict
           (Emprunt_data_format 0 (emprunt_1\<lparr>e_date_retour := Some 1641600000001\<rparr>)) = Inr e' \<and>
         e_id_emprunt e' = ''EMP-AAAAAAA1'' \<and>
         e_matricule_user e' = ''U-AAAAAAA1'' \<and>
         e_isbn e' = ''9780306406157'' \<and>
         e_code_barre e' = ''00001'' \<and>
         e_date_retour e' = Some 1641600000000 \<and>
         Emprunt_statut 0 e' = ''en_retard'') \<and>
   Emprunt_statut 0 (emprunt_1\<lparr>e_date_retour := Some 1641600000001\<rparr>) = ''en_retard'' \<and>
   (\<exists>r'. Reservation_from_dict (Reservation_data_format reservation_1) ''RES-AAAAAAA9'' 0 = Inr r' \<and>
         r_id r' = ''RES-AAAAAAA1'' \<and>
         r_matricule_user r' = ''U-AAAAAAA2'' \<and>
         r_isbn r' = ''9780306406157'' \<and>
         r_statut r' = STATUT_NOTIFIE)"
proof -
  let ?e = "emprunt_1\<lparr>e_date_retour := Some 1641600000001\<rparr>"
  have a: "valider_code_barre (e_code_barre ?e)" "\<not> troncature_decisive 0 ?e"
    "Emprunt_statut 0 ?e = ''en_retard''"
    "e_id_emprunt ?e = ''EMP-AAAAAAA1''" "e_matricule_user ?e = ''U-AAAAAAA1''"
    "e_isbn ?e = ''9780306406157''" "e_code_barre ?e = ''00001''"
    "map_option isoformat_seconds (e_date_retour ?e) = Some 1641600000000"
    by (simp_all add: emprunt_1_def valider_code_barre_def troncature_decisive_def
        Emprunt_statut_def isoformat_seconds_def)
  have b: "r_id reservation_1 = ''RES-AAAAAAA1''" "r_matricule_user reservation_1 = ''U-AAAAAAA2''"
    "r_isbn reservation_1 = ''9780306406157''" "r_statut reservation_1 = STATUT_NOTIFIE"
    by (simp_all add: reservation_1_def)
  from aller_retour [of ?e 0 0 reservation_1 "''RES-AAAAAAA9''" 0] a(1) b(1-3)
  obtain e' r' where e': "Emprunt_from_dict (Emprunt_data_format 0 ?e) = Inr e'"
      "e_id_emprunt e' = e_id_emprunt ?e" "e_matricule_user e' = e_matricule_user ?e"
      "e_isbn e' = e_isbn ?e" "e_code_barre e' = e_code_barre ?e"
      "e_date_retour e' = map_option isoformat_seconds (e_date_retour ?e)"
      "Emprunt_statut 0 e' = Emprunt_statut 0 ?e \<longleftrightarrow> \<not> troncature_decisive 0 ?e"
    and r': "Reservation_from_dict (Reservation_data_format reservation_1) ''RES-AAAAAAA9'' 0 = Inr r'"
      "r_id r' = r_id reservation_1" "r_matricule_user r' = r_matricule_user reservation_1"
      "r_isbn r' = r_isbn reservation_1" "r_statut r' = r_statut reservation_1"
    by auto
  from e' a have "Emprunt_from_dict (Emprunt_data_format 0 ?e) = Inr e' \<and>
         e_id_emprunt e' = ''EMP-AAAAAAA1'' \<and>
         e_matricule_user e' = ''U-AAAAAAA1'' \<and>
         e_isbn e' = ''9780306406157'' \<and>
         e_code_barre e' = ''00001'' \<and>
         e_date_retour e' = Some 1641600000000 \<and>
         Emprunt_statut 0 e' = ''en_retard''"
    by simp
  moreover from r' b have "Reservation_from_dict (Reservation_data_format reservation_1)
          ''RES-AAAAAAA9'' 0 = Inr r' \<and>
         r_id r' = ''RES-AAAAAAA1'' \<and>
         r_matricule_user r' = ''U-AAAAAAA2'' \<and>
         r_isbn r' = ''9780306406157'' \<and>
         r_statut r' = STATUT_NOTIFIE"
    by simp
  ultimately show ?thesis using a(3) by blast
qed

section \<open>A borrow that fails changes nothing\<close>

text \<open>
  Claim C10. When \<open>emprunter\<close> raises, whatever the error, the books and their copies
  (statuses and borrow counters), the members and their lists of current loans, the
  loans, the reservations and the queues are what they were. The suspensions are what
  they were but for entries that were removed, and a removed entry had expired at one
  of the two clock readings of the check.
\<close>

theorem emprunter_echec_sans_effet:
  assumes "emprunter s matricule isbn code_barre duree_jours nouvel_id h = (Inl err, s')"
  shows "livres s' = livres s \<and> utilisateurs s' = utilisateurs s \<and> emprunts s' = emprunts s \<and>
         reservations s' = reservations s \<and> files s' = files s \<and>
         (\<forall>k. suspensions s' k = suspensions s k \<or>
              (suspensions s' k = None \<and>
               (\<exists>fin. suspensions s k = Some fin \<and>
                      (fin \<le> le_verification h \<or> fin \<le> le_purge h))))"
proof -
  obtain r s1 where i: "is_suspended (le_verification h) (le_purge h) matricule s = (r, s1)"
    by (cases "is_suspended (le_verification h) (le_purge h) matricule s")
  from emprunter_echec [OF assms] i have "s' = s \<or> s' = s1" by simp
  then have "\<forall>k. suspensions s' k = suspensions s k \<or>
              (suspensions s' k = None \<and>
               (\<exists>fin. suspensions s k = Some fin \<and>
                      (fin \<le> le_verification h \<or> fin \<le> le_purge h)))"
    using is_suspended_suspensions [OF i] by auto
  then show ?thesis using emprunter_echec_autres [OF assms] by simp
qed

text \<open>
  In the example library, the second member asks on day 100, after the suspension ran
  out, for the second book, which has no copy left: the request fails, the expired
  suspension is gone and nothing else has changed.
\<close>

lemma emprunter_exemple_indisponible:
  "fst (emprunter bibliotheque ''U-AAAAAAA2'' ''9783161484100'' None 14 ''EMP-AAAAAAA9''
     \<lparr>le_verification = 8640000000001, le_purge = 8640000000002, le_emprunt = 8640000000003,
      le_historique = 8640000000004, le_sauvegarde = 8640000000005\<rparr>) = Inl ExemplaireIndisponible"
  by (simp add: emprunter_def get_utilisateur_par_matricule_def get_livre_def is_suspended_def
      sauvegarder_def peut_emprunter_def trouver_exemplaire_def critere_exemplaire_def
      exemple_defs Let_def)

lemma emprunter_exemple_purge:
  "suspensions (snd (emprunter bibliotheque ''U-AAAAAAA2'' ''9783161484100'' None 14 ''EMP-AAAAAAA9''
     \<lparr>le_verification = 8640000000001, le_purge = 8640000000002, le_emprunt = 8640000000003,
      le_historique = 8640000000004, le_sauvegarde = 8640000000005\<rparr>)) ''U-AAAAAAA2'' = None"
  by (simp add: emprunter_def get_utilisateur_par_matricule_def get_livre_def is_suspended_def
      sauvegarder_def peut_emprunter_def trouver_exemplaire_def critere_exemplaire_def
      nettoyer_suspensions_def exemple_defs Let_def)

theorem emprunter_echec_sans_effet_witness:
  "fst (emprunter bibliotheque ''U-AAAAAAA2'' ''9783161484100'' None 14 ''EMP-AAAAAAA9''
     \<lparr>le_verification = 8640000000001, le_purge = 8640000000002, le_emprunt = 8640000000003,
      le_historique = 8640000000004, le_sauvegarde = 8640000000005\<rparr>) = Inl ExemplaireIndisponible \<and>
   livres (snd (emprunter bibliotheque ''U-AAAAAAA2'' ''9783161484100'' None 14 ''EMP-AAAAAAA9''
     \<lparr>le_verification = 8640000000001, le_purge = 8640000000002, le_emprunt = 8640000000003,
      le_historique = 8640000000004, le_sauvegarde = 8640000000005\<rparr>)) = [livre_1, livre_2] \<and>
   utilisateurs (snd (emprunter bibliotheque ''U-AAAAAAA2'' ''9783161484100'' None 14 ''EMP-AAAAAAA9''
     \<lparr>le_verification = 8640000000001, le_purge = 8640000000002, le_emprunt = 8640000000003,
      le_historique = 8640000000004, le_sauvegarde = 8640000000005\<rparr>)) = [membre_1, membre_2] \<and>
   emprunts (snd (emprunter bibliotheque ''U-AAAAAAA2'' ''9783161484100'' None 14 ''EMP-AAAAAAA9''
     \<lparr>le_verification = 8640000000001, le_purge = 8640000000002, le_emprunt = 8640000000003,
      le_historique = 8640000000004, le_sauvegarde = 8640000000005\<rparr>)) = emprunts bibliotheque \<and>
   suspensions (snd (emprunter bibliotheque ''U-AAAAAAA2'' ''9783161484100'' None 14 ''EMP-AAAAAAA9''
     \<lparr>le_verification = 8640000000001, le_purge = 8640000000002, le_emprunt = 8640000000003,
      le_historique = 8640000000004, le_sauvegarde = 8640000000005\<rparr>)) ''U-AAAAAAA2'' = None"
proof -
  let ?h = "\<lparr>le_verification = 8640000000001, le_purge = 8640000000002, le_emprunt = 8640000000003,
      le_historique = 8640000000004, le_sauvegarde = 8640000000005\<rparr>"
  let ?r = "emprunter bibliotheque ''U-AAAAAAA2'' ''9783161484100'' None 14 ''EMP-AAAAAAA9'' ?h"
  have "?r = (Inl ExemplaireIndisponible, snd ?r)"
    using emprunter_exemple_indisponible by (metis prod.collapse)
  from emprunter_echec_sans_effet [OF this]
  have "livres (snd ?r) = livres bibliotheque" "utilisateurs (snd ?r) = utilisateurs bibliotheque"
    "emprunts (snd ?r) = emprunts bibliotheque"
    by simp_all
  moreover have "livres bibliotheque = [livre_1, livre_2]"
    "utilisateurs bibliotheque = [membre_1, membre_2]"
    by (simp_all add: bibliotheque_def)
  ultimately show ?thesis
    using emprunter_exemple_indisponible emprunter_exemple_purge by simp
qed

section \<open>Confirming a reservation when the borrow fails\<close>

text \<open>
  Claim C4. With the loan service attached, \<open>confirmer\<close> on a notified reservation
  whose borrow raises, whatever the error, returns \<open>False\<close>; the reservation table,
  the queues and the reservation file are what they were, so the reservation is still
  notified and stands where it stood in its queue.
\<close>

theorem confirmer_echec_emprunt:
  assumes "map_of (reservations s) id_reservation = Some r"
      and "r_statut r = STATUT_NOTIFIE"
      and "res_gestion_emprunt s"
      and "emprunter s (r_matricule_user r) (r_isbn r) None 14 nouvel_id h = (Inl err, s')"
  shows "confirmer s id_reservation nouvel_id h = (Inr False, s') \<and>
         reservations s' = reservations s \<and>
         files s' = files s \<and>
         fichier_reservations s' = fichier_reservations s \<and>
         map_of (reservations s') id_reservation = Some r"
proof -
  have "confirmer s id_reservation nouvel_id h = (Inr False, s')"
    using assms by (simp add: confirmer_def est_confirmable_def)
  then show ?thesis
    using emprunter_echec_autres [OF assms(4)] assms(1) by simp
qed

text \<open>
  In the example library the notified reservation belongs to the suspended member:
  confirming it on day 0 returns \<open>False\<close> and leaves the library as it was.
\<close>

lemma emprunter_exemple_suspendu:
  "emprunter bibliotheque ''U-AAAAAAA2'' ''9780306406157'' None 14 ''EMP-AAAAAAA9''
     \<lparr>le_verification = 1, le_purge = 2, le_emprunt = 3, le_historique = 4, le_sauvegarde = 5\<rparr>
   = (Inl Utilisateur_suspendu, bibliotheque)"
  by (simp add: emprunter_def get_utilisateur_par_matricule_def is_suspended_def exemple_defs)

theorem confirmer_echec_emprunt_witness:
  "confirmer bibliotheque ''RES-AAAAAAA1'' ''EMP-AAAAAAA9''
     \<lparr>le_verification = 1, le_purge = 2, le_emprunt = 3, le_historique = 4, le_sauvegarde = 5\<rparr>
   = (Inr False, bibliotheque) \<and>
   map_of (reservations bibliotheque) ''RES-AAAAAAA1'' = Some reservation_1 \<and>
   r_statut reservation_1 = STATUT_NOTIFIE"
proof -
  have a: "map_of (reservations bibliotheque) ''RES-AAAAAAA1'' = Some reservation_1"
    "res_gestion_emprunt bibliotheque"
    by (simp_all add: bibliotheque_def)
  have b: "r_statut reservation_1 = STATUT_NOTIFIE" "r_matricule_user reservation_1 = ''U-AAAAAAA2''"
    "r_isbn reservation_1 = ''9780306406157''"
    by (simp_all add: reservation_1_def)
  have c: "emprunter bibliotheque (r_matricule_user reservation_1) (r_isbn reservation_1) None 14
      ''EMP-AAAAAAA9''
      \<lparr>le_verification = 1, le_purge = 2, le_emprunt = 3, le_historique = 4, le_sauvegarde = 5\<rparr>
     = (Inl Utilisateur_suspendu, bibliotheque)"
    using emprunter_exemple_suspendu b by simp
  from confirmer_echec_emprunt [OF a(1) b(1) a(2) c] a b show ?thesis by simp
qed

section \<open>The status of a book follows its copies\<close>

text \<open>
  Claim C1. After each operation that touches the copies of a book, the book the
  catalogue returns for that ISBN has a status that agrees with its copies
  (\<open>statut_coherent\<close>: unavailable exactly when it has no copy, available exactly when
  a copy is available, on loan otherwise): after a copy was added
  (\<open>ajouter_exemplaire\<close> returned), after a copy was removed (\<open>retirer_exemplaire\<close>
  returned \<open>True\<close>), after a borrow (\<open>emprunter\<close> returned a loan) and after the
  return of a loan that was out (when the book is still in the catalogue).
\<close>

theorem statut_apres_operation:
  "(ajouter_exemplaire s isbn exemplaire = (Inr (), s1) \<longrightarrow>
      (\<exists>l. get_livre s1 isbn = Some l \<and> statut_coherent l)) \<and>
   (retirer_exemplaire s isbn code_barre = (True, s2) \<longrightarrow>
      (\<exists>l. get_livre s2 isbn = Some l \<and> statut_coherent l)) \<and>
   (emprunter s matricule isbn code_barre_option duree_jours nouvel_id h = (Inr e, s3) \<longrightarrow>
      (\<exists>l. get_livre s3 isbn = Some l \<and> statut_coherent l)) \<and>
   (map_of (emprunts s) id_emprunt = Some e0 \<and> e_date_retour e0 = None \<longrightarrow>
      (\<forall>l. get_livre (snd (retourner s id_emprunt h')) (e_isbn e0) = Some l \<longrightarrow> statut_coherent l))"
proof (intro conjI impI allI)
  assume a: "ajouter_exemplaire s isbn exemplaire = (Inr (), s1)"
  then have "fst (ajouter_exemplaire s isbn exemplaire) = Inr ()" by simp
  from ajouter_exemplaire_livre [OF this] a
  show "\<exists>l. get_livre s1 isbn = Some l \<and> statut_coherent l" by simp
next
  assume a: "retirer_exemplaire s isbn code_barre = (True, s2)"
  then have "fst (retirer_exemplaire s isbn code_barre)" by simp
  from retirer_exemplaire_livre [OF this] a
  show "\<exists>l. get_livre s2 isbn = Some l \<and> statut_coherent l" by simp
next
  assume a: "emprunter s matricule isbn code_barre_option duree_jours nouvel_id h = (Inr e, s3)"
  then have "fst (emprunter s matricule isbn code_barre_option duree_jours nouvel_id h) = Inr e"
    by simp
  from emprunter_livre [OF this] a
  show "\<exists>l. get_livre s3 isbn = Some l \<and> statut_coherent l" by simp
next
  fix l
  assume "map_of (emprunts s) id_emprunt = Some e0 \<and> e_date_retour e0 = None"
    and "get_livre (snd (retourner s id_emprunt h')) (e_isbn e0) = Some l"
  then show "statut_coherent l" using retourner_livre by blast
qed

text \<open>
  In the example library: a copy is added to the second book, the free copy of the
  first book is removed, the first member borrows the first book, and the first loan
  is returned, after which the first book is available.
\<close>

lemma emprunter_exemple_succes:
  "fst (emprunter bibliotheque ''U-AAAAAAA1'' ''9780306406157'' None 14 ''EMP-AAAAAAA9''
     \<lparr>le_verification = 1, le_purge = 2, le_emprunt = 3, le_historique = 4, le_sauvegarde = 5\<rparr>)
   = Inr \<lparr>e_id_emprunt = ''EMP-AAAAAAA9'', e_matricule_user = ''U-AAAAAAA1'',
       e_isbn = ''9780306406157'', e_code_barre = ''00002'', e_date_emprunt = 3,
       e_date_echeance = 1209600000003, e_date_retour = None, e_renouvellements = 0\<rparr>"
  by (simp add: emprunter_def evaluation_defs exemple_defs)

lemma retourner_exemple_livre:
  "get_livre (snd (retourner bibliotheque ''EMP-AAAAAAA1''
     \<lparr>lr_retour = 1, lr_historique = 2, lr_suspension = 3, lr_sauvegarde = 4\<rparr>)) ''9780306406157''
   = Some (livre_1\<lparr>l_exemplaires :=
        [\<lparr>ex_id_exemplaire = ''EX-AAAAAAA1'', ex_code_barre = ''00001'', ex_etat = ''bon'',
           ex_localisation = ''stock'', ex_statut = DISPONIBLE, ex_date_acquisition = 0\<rparr>,
         \<lparr>ex_id_exemplaire = ''EX-AAAAAAA2'', ex_code_barre = ''00002'', ex_etat = ''bon'',
           ex_localisation = ''stock'', ex_statut = DISPONIBLE, ex_date_acquisition = 0\<rparr>]\<rparr>)"
  by (simp add: retourner_def evaluation_defs exemple_defs)

lemma ajouter_exemple:
  "ajouter_exemplaire bibliotheque ''9783161484100''
     \<lparr>ex_id_exemplaire = ''EX-AAAAAAA9'', ex_code_barre = ''00009'', ex_etat = ''bon'',
      ex_localisation = ''stock'', ex_statut = DISPONIBLE, ex_date_acquisition = 0\<rparr>
   = (Inr (), snd (ajouter_exemplaire bibliotheque ''9783161484100''
     \<lparr>ex_id_exemplaire = ''EX-AAAAAAA9'', ex_code_barre = ''00009'', ex_etat = ''bon'',
      ex_localisation = ''stock'', ex_statut = DISPONIBLE, ex_date_acquisition = 0\<rparr>))"
  by (simp add: ajouter_exemplaire_def code_barre_existe_def str_lower_def str_strip_def
      est_espace_def evaluation_defs exemple_defs)

lemma retirer_exemple:
  "retirer_exemplaire bibliotheque ''9780306406157'' ''00002''
   = (True, snd (retirer_exemplaire bibliotheque ''9780306406157'' ''00002''))"
  by (simp add: retirer_exemplaire_def Livre_retirer_exemplaire_def evaluation_defs exemple_defs)

theorem statut_apres_operation_witness:
  "(\<exists>l. get_livre (snd (ajouter_exemplaire bibliotheque ''9783161484100''
          \<lparr>ex_id_exemplaire = ''EX-AAAAAAA9'', ex_code_barre = ''00009'', ex_etat = ''bon'',
           ex_localisation = ''stock'', ex_statut = DISPONIBLE, ex_date_acquisition = 0\<rparr>))
          ''9783161484100'' = Some l \<and> statut_coherent l) \<and>
   (\<exists>l. get_livre (snd (retirer_exemplaire bibliotheque ''9780306406157'' ''00002''))
          ''9780306406157'' = Some l \<and> statut_coherent l) \<and>
   (\<exists>l. get_livre (snd (emprunter bibliotheque ''U-AAAAAAA1'' ''9780306406157'' None 14
          ''EMP-AAAAAAA9''
          \<lparr>le_verification = 1, le_purge = 2, le_emprunt = 3, le_historique = 4,
           le_sauvegarde = 5\<rparr>)) ''9780306406157'' = Some l \<and> statut_coherent l) \<and>
   (\<exists>l. get_livre (snd (retourner bibliotheque ''EMP-AAAAAAA1''
          \<lparr>lr_retour = 1, lr_historique = 2, lr_suspension = 3, lr_sauvegarde = 4\<rparr>))
          ''9780306406157'' = Some l \<and> l_statut l = DISPONIBLE \<and> statut_coherent l)"
proof -
  let ?he = "\<lparr>le_verification = 1, le_purge = 2, le_emprunt = 3, le_historique = 4,
           le_sauvegarde = 5\<rparr>"
  let ?hr = "\<lparr>lr_retour = 1, lr_historique = 2, lr_suspension = 3, lr_sauvegarde = 4\<rparr>"
  let ?e = "emprunter bibliotheque ''U-AAAAAAA1'' ''9780306406157'' None 14 ''EMP-AAAAAAA9'' ?he"
  have a: "\<exists>e. ?e = (Inr e, snd ?e)"
    using emprunter_exemple_succes by (metis prod.collapse)
  have r: "map_of (emprunts bibliotheque) ''EMP-AAAAAAA1'' = Some emprunt_1 \<and>
           e_date_retour emprunt_1 = None"
    by (simp add: bibliotheque_def emprunt_1_def)
  have i: "e_isbn emprunt_1 = ''9780306406157''" by (simp add: emprunt_1_def)
  have d: "l_statut livre_1 = DISPONIBLE" by (simp add: livre_1_def)
  from statut_apres_operation [where s = bibliotheque and isbn = "''9783161484100''"] ajouter_exemple
  have 1: "\<exists>l. get_livre (snd (ajouter_exemplaire bibliotheque ''9783161484100''
          \<lparr>ex_id_exemplaire = ''EX-AAAAAAA9'', ex_code_barre = ''00009'', ex_etat = ''bon'',
           ex_localisation = ''stock'', ex_statut = DISPONIBLE, ex_date_acquisition = 0\<rparr>))
          ''9783161484100'' = Some l \<and> statut_coherent l"
    by blast
  from statut_apres_operation [where s = bibliotheque and isbn = "''9780306406157''"] retirer_exemple
  have 2: "\<exists>l. get_livre (snd (retirer_exemplaire bibliotheque ''9780306406157'' ''00002''))
          ''9780306406157'' = Some l \<and> statut_coherent l"
    by blast
  from statut_apres_operation [where s = bibliotheque and isbn = "''9780306406157''"] a
  have 3: "\<exists>l. get_livre (snd ?e) ''9780306406157'' = Some l \<and> statut_coherent l"
    by blast
  from statut_apres_operation [where s = bibliotheque and id_emprunt = "''EMP-AAAAAAA1''"
      and e0 = emprunt_1 and h' = ?hr] r
  have "\<forall>l. get_livre (snd (retourner bibliotheque ''EMP-AAAAAAA1'' ?hr)) (e_isbn emprunt_1) = Some l
          \<longrightarrow> statut_coherent l"
    by blast
  then have 4: "\<exists>l. get_livre (snd (retourner bibliotheque ''EMP-AAAAAAA1'' ?hr))
          ''9780306406157'' = Some l \<and> l_statut l = DISPONIBLE \<and> statut_coherent l"
    using i retourner_exemple_livre d by simp
  from 1 2 3 4 show ?thesis by blast
qed

section \<open>A late return suspends the member\<close>





section \<open>Penalties for the loans that are overdue\<close>

text \<open>
  Claim C6, as stated, fails in two ways. A loan that is overdue by less than a day
  suspends nobody: \<open>appliquer_penalites\<close> sets a suspension only when
  \<open>(now - due).days\<close> is positive. In the example library, one hour after the due
  date of the first loan, its member has no suspension after the call. And of two
  overdue loans of one member the later in the table decides. In the sequence of the
  example library the first member holds two loans, due on day 14 and day 19; on day 21
  the first is seven days late, which would give 21 days, and the member is suspended
  for the six days of the second.
\<close>

theorem appliquer_penalites_counterexample:
  "map_of (emprunts bibliotheque) ''EMP-AAAAAAA1'' = Some emprunt_1 \<and>
   e_date_retour emprunt_1 = None \<and>
   e_date_echeance emprunt_1 < 1213200000000 \<and>
   suspensions (appliquer_penalites bibliotheque
      \<lparr>lp_now = 1213200000000, lp_sauvegarde = 1213200000001\<rparr>) (e_matricule_user emprunt_1) = None \<and>
   map_of (emprunts apres_second_emprunt) ''EMP-AAAAAAA1'' = Some emprunt_1 \<and>
   e_date_echeance emprunt_1 < 1814400000000 \<and>
   1814400000000 + timedelta_days (3 * days (1814400000000 - e_date_echeance emprunt_1))
     = 3628800000000 \<and>
   suspensions (appliquer_penalites apres_second_emprunt
      \<lparr>lp_now = 1814400000000, lp_sauvegarde = 1814400000001\<rparr>) (e_matricule_user emprunt_1)
     = Some 2332800000000"
  by (simp add: chaine_defs emprunter_def appliquer_penalites_def lister_en_cours_def
      evaluation_defs exemple_defs)

text \<open>
  Claim C6, amended. After \<open>appliquer_penalites\<close>, for every loan that is out and at
  least one whole day past its due date, and that no later loan of the table with the
  same member and such a delay follows, the suspension table maps the loan's member to
  \<open>now\<close> plus three times \<open>(now - due).days\<close> days, whatever it held before (the save
  that ends the call is assumed to read the clock less than three days after \<open>now\<close>).
  A member who has no loan that is out and a whole day late, also one whose loans are
  overdue by less than a day, gets no suspension from the call: the member's entry is
  the one the table held, or none when that entry has expired at the save.
\<close>

theorem appliquer_penalites_suspend:
  "(emprunts s = avant @ (k, e) # apres \<and>
    retard_penalisable (lp_now h) e \<and>
    (\<forall>(k', e') \<in> set apres.
        e_matricule_user e' = e_matricule_user e \<longrightarrow> \<not> retard_penalisable (lp_now h) e') \<and>
    lp_sauvegarde h < lp_now h + timedelta_days 3 \<longrightarrow>
      suspensions (appliquer_penalites s h) (e_matricule_user e) =
        Some (lp_now h + timedelta_days (3 * days (lp_now h - e_date_echeance e)))) \<and>
   ((\<forall>(k', e') \<in> set (emprunts s).
        e_matricule_user e' = m \<longrightarrow> \<not> retard_penalisable (lp_now h) e') \<longrightarrow>
      suspensions (appliquer_penalites s h) m =
        (case suspensions s m of
           None \<Rightarrow> None
         | Some fin \<Rightarrow> if fin > lp_sauvegarde h then Some fin else None))"
proof (intro conjI impI)
  assume a: "emprunts s = avant @ (k, e) # apres \<and>
    retard_penalisable (lp_now h) e \<and>
    (\<forall>(k', e') \<in> set apres.
        e_matricule_user e' = e_matricule_user e \<longrightarrow> \<not> retard_penalisable (lp_now h) e') \<and>
    lp_sauvegarde h < lp_now h + timedelta_days 3"
  let ?now = "lp_now h"
  let ?m = "e_matricule_user e"
  let ?d = "days (?now - e_date_echeance e)"
  let ?P = "\<lambda>e. e_date_retour e = None"
  let ?fin = "?now + timedelta_days (3 * ?d)"
  have r: "e_date_retour e = None" and d: "1 \<le> ?d"
    using a by (simp_all add: retard_penalisable_def)
  have late: "e_date_echeance e < ?now" using d by (rule retard_un_jour)
  have apres: "\<forall>e' \<in> set (filter ?P (map snd apres)).
                 e_matricule_user e' = ?m \<longrightarrow> \<not> 1 \<le> days (?now - e_date_echeance e')"
    using a by (auto simp: retard_penalisable_def)
  have decoupe: "emprunts s = avant @ (k, e) # apres" using a by simp
  have "penaliser ?now (lister_en_cours s) (suspensions s) ?m =
          penaliser ?now (e # filter ?P (map snd apres))
            (penaliser ?now (filter ?P (map snd avant)) (suspensions s)) ?m"
    by (simp add: lister_en_cours_decoupe [OF decoupe r] penaliser_append)
  also have "\<dots> = Some ?fin"
    using late d
    by (simp add: penaliser_inchange [OF apres] Let_def FACTEUR_SUSPENSION_def mult.commute)
  finally have p: "penaliser ?now (lister_en_cours s) (suspensions s) ?m = Some ?fin" .
  have "timedelta_days 3 \<le> timedelta_days (3 * ?d)"
    using d jour_positif by (simp add: timedelta_days_def)
  then have "lp_sauvegarde h < ?fin" using a by simp
  then show "suspensions (appliquer_penalites s h) ?m = Some ?fin"
    by (simp add: appliquer_penalites_def sauvegarder_def Let_def nettoyer_suspensions_def p)
next
  assume a: "\<forall>(k', e') \<in> set (emprunts s).
        e_matricule_user e' = m \<longrightarrow> \<not> retard_penalisable (lp_now h) e'"
  have "\<forall>e' \<in> set (lister_en_cours s).
          e_matricule_user e' = m \<longrightarrow> \<not> 1 \<le> days (lp_now h - e_date_echeance e')"
    using a by (auto simp: lister_en_cours_def retard_penalisable_def)
  then have "penaliser (lp_now h) (lister_en_cours s) (suspensions s) m = suspensions s m"
    by (rule penaliser_inchange)
  then show "suspensions (appliquer_penalites s h) m =
        (case suspensions s m of
           None \<Rightarrow> None
         | Some fin \<Rightarrow> if fin > lp_sauvegarde h then Some fin else None)"
    by (simp add: appliquer_penalites_def sauvegarder_def Let_def nettoyer_suspensions_def)
qed

text \<open>
  On day 16 the first loan of the example library is two days late: six days. One hour
  after its due date it is less than a day late, and its member, who had no
  suspension, has none.
\<close>

theorem appliquer_penalites_suspend_witness:
  "suspensions (appliquer_penalites bibliotheque
      \<lparr>lp_now = 1382400000000, lp_sauvegarde = 1382400000001\<rparr>) ''U-AAAAAAA1''
   = Some 1900800000000 \<and>
   suspensions (appliquer_penalites bibliotheque
      \<lparr>lp_now = 1213200000000, lp_sauvegarde = 1213200000001\<rparr>) ''U-AAAAAAA1''
   = None"
proof -
  let ?h = "\<lparr>lp_now = 1382400000000, lp_sauvegarde = 1382400000001\<rparr>"
  let ?h' = "\<lparr>lp_now = 1213200000000, lp_sauvegarde = 1213200000001\<rparr>"
  have a: "emprunts bibliotheque =
      [] @ (''EMP-AAAAAAA1'', emprunt_1) # [(''EMP-AAAAAAA2'', emprunt_2), (''EMP-AAAAAAA3'', emprunt_3)]"
    by (simp add: bibliotheque_def)
  have b: "retard_penalisable (lp_now ?h) emprunt_1"
    by (simp add: retard_penalisable_def emprunt_1_def days_def jour_def)
  have c: "\<forall>(k', e') \<in> set [(''EMP-AAAAAAA2'', emprunt_2), (''EMP-AAAAAAA3'', emprunt_3)].
             e_matricule_user e' = e_matricule_user emprunt_1 \<longrightarrow>
             \<not> retard_penalisable (lp_now ?h) e'"
    by (simp add: emprunt_1_def emprunt_2_def emprunt_3_def)
  have d: "lp_sauvegarde ?h < lp_now ?h + timedelta_days 3"
    by (simp add: timedelta_days_def jour_def)
  have f: "lp_now ?h + timedelta_days (3 * days (lp_now ?h - e_date_echeance emprunt_1))
        = 1900800000000"
    by (simp add: emprunt_1_def timedelta_days_def jour_def days_def)
  have m: "e_matricule_user emprunt_1 = ''U-AAAAAAA1''" by (simp add: emprunt_1_def)
  from appliquer_penalites_suspend [of bibliotheque "[]" "''EMP-AAAAAAA1''" emprunt_1
      "[(''EMP-AAAAAAA2'', emprunt_2), (''EMP-AAAAAAA3'', emprunt_3)]" ?h] a b c d
  have 1: "suspensions (appliquer_penalites bibliotheque ?h) (e_matricule_user emprunt_1) =
        Some (lp_now ?h + timedelta_days (3 * days (lp_now ?h - e_date_echeance emprunt_1)))"
    by blast
  have g: "\<forall>(k', e') \<in> set (emprunts bibliotheque).
        e_matricule_user e' = ''U-AAAAAAA1'' \<longrightarrow> \<not> retard_penalisable (lp_now ?h') e'"
    by (simp add: retard_penalisable_def days_def jour_def exemple_defs)
  have n: "suspensions bibliotheque ''U-AAAAAAA1'' = None"
    by (simp add: bibliotheque_def)
  from appliquer_penalites_suspend [where s = bibliotheque and h = ?h' and m = "''U-AAAAAAA1''"] g
  have "suspensions (appliquer_penalites bibliotheque ?h') ''U-AAAAAAA1'' =
        (case suspensions bibliotheque ''U-AAAAAAA1'' of
           None \<Rightarrow> None
         | Some fin \<Rightarrow> if fin > lp_sauvegarde ?h' then Some fin else None)"
    by blast
  then have 2: "suspensions (appliquer_penalites bibliotheque ?h') ''U-AAAAAAA1'' = None"
    using n by simp
  from 1 2 show ?thesis unfolding f m by simp
qed

section \<open>Reserving a book\<close>

text \<open>
  Claim C7, as stated, fails where both its conditions hold: the checks are made in
  order, and the availability of the book is tested before the member's reservations.
  In the example library the second member holds a notified reservation for the first
  book, which has an available copy: reserving it again raises the error of the
  available book, not the error of the double reservation.
\<close>

theorem reserver_counterexample:
  "(\<exists>ex \<in> set (l_exemplaires livre_1). ex_statut ex = DISPONIBLE) \<and>
   get_livre bibliotheque ''9780306406157'' = Some livre_1 \<and>
   map_of (reservations bibliotheque) ''RES-AAAAAAA1'' = Some reservation_1 \<and>
   r_matricule_user reservation_1 = ''U-AAAAAAA2'' \<and>
   r_isbn reservation_1 = ''9780306406157'' \<and>
   r_statut reservation_1 = STATUT_NOTIFIE \<and>
   reserver bibliotheque ''U-AAAAAAA2'' ''9780306406157'' ''RES-AAAAAAA9'' 0
     = (Inl Livre_deja_disponible, bibliotheque) \<and>
   fst (reserver bibliotheque ''U-AAAAAAA2'' ''9780306406157'' ''RES-AAAAAAA9'' 0)
     \<noteq> Inl Reservation_en_cours"
  by (simp add: reserver_def get_livre_def get_utilisateur_par_matricule_def est_disponible_def
      exemplaires_disponibles_def exemple_defs)

text \<open>
  Claim C7, amended. With the catalogue attached and the member found (or no member
  service attached), \<open>reserver\<close> raises the error of the available book whenever the
  book has an available copy. With the member found and the book found without an
  available copy (or the services not attached), it raises the error of the double
  reservation whenever the member already holds a waiting or notified reservation for
  that ISBN. Neither changes the state. When it returns, the reservation is waiting,
  is stored under its id, and its id is the last of the queue of that ISBN, after the
  ids the queue held.
\<close>

theorem reserver_regle:
  "((res_gestion_user s \<longrightarrow> get_utilisateur_par_matricule s matricule_user \<noteq> None) \<and>
    res_gestion_livre s \<and>
    (\<exists>livre. get_livre s isbn = Some livre \<and>
             (\<exists>ex \<in> set (l_exemplaires livre). ex_statut ex = DISPONIBLE)) \<longrightarrow>
      reserver s matricule_user isbn nouvel_id now = (Inl Livre_deja_disponible, s)) \<and>
   ((res_gestion_user s \<longrightarrow> get_utilisateur_par_matricule s matricule_user \<noteq> None) \<and>
    (res_gestion_livre s \<longrightarrow>
       (\<exists>livre. get_livre s isbn = Some livre \<and>
                \<not> (\<exists>ex \<in> set (l_exemplaires livre). ex_statut ex = DISPONIBLE))) \<and>
    (\<exists>r \<in> set (map snd (reservations s)).
        r_matricule_user r = matricule_user \<and> r_isbn r = isbn \<and>
        (r_statut r = STATUT_EN_ATTENTE \<or> r_statut r = STATUT_NOTIFIE)) \<longrightarrow>
      reserver s matricule_user isbn nouvel_id now = (Inl Reservation_en_cours, s)) \<and>
   (\<forall>r s'. reserver s matricule_user isbn nouvel_id now = (Inr r, s') \<longrightarrow>
      r_statut r = STATUT_EN_ATTENTE \<and> r_matricule_user r = matricule_user \<and> r_isbn r = isbn \<and>
      map_of (reservations s') (r_id r) = Some r \<and>
      files s' isbn = Some ((case files s isbn of None \<Rightarrow> [] | Some q \<Rightarrow> q) @ [r_id r]))"
proof (intro conjI allI impI)
  assume "(res_gestion_user s \<longrightarrow> get_utilisateur_par_matricule s matricule_user \<noteq> None) \<and>
    res_gestion_livre s \<and>
    (\<exists>livre. get_livre s isbn = Some livre \<and>
             (\<exists>ex \<in> set (l_exemplaires livre). ex_statut ex = DISPONIBLE))"
  then show "reserver s matricule_user isbn nouvel_id now = (Inl Livre_deja_disponible, s)"
    by (auto simp: reserver_def est_disponible_iff)
next
  assume a: "(res_gestion_user s \<longrightarrow> get_utilisateur_par_matricule s matricule_user \<noteq> None) \<and>
    (res_gestion_livre s \<longrightarrow>
       (\<exists>livre. get_livre s isbn = Some livre \<and>
                \<not> (\<exists>ex \<in> set (l_exemplaires livre). ex_statut ex = DISPONIBLE))) \<and>
    (\<exists>r \<in> set (map snd (reservations s)).
        r_matricule_user r = matricule_user \<and> r_isbn r = isbn \<and>
        (r_statut r = STATUT_EN_ATTENTE \<or> r_statut r = STATUT_NOTIFIE))"
  then have "list_ex (\<lambda>r. r_isbn r = isbn \<and>
                           (r_statut r = STATUT_EN_ATTENTE \<or> r_statut r = STATUT_NOTIFIE))
                (lister_par_user s matricule_user)"
    unfolding list_ex_iff lister_par_user_def by auto
  with a show "reserver s matricule_user isbn nouvel_id now = (Inl Reservation_en_cours, s)"
    by (auto simp: reserver_def est_disponible_iff)
next
  fix r s'
  assume "reserver s matricule_user isbn nouvel_id now = (Inr r, s')"
  then have f: "fst (reserver s matricule_user isbn nouvel_id now) = Inr r"
    and s': "s' = snd (reserver s matricule_user isbn nouvel_id now)"
    by simp_all
  show "r_statut r = STATUT_EN_ATTENTE" "r_matricule_user r = matricule_user" "r_isbn r = isbn"
    using reserver_succes(1) [OF f] by simp_all
  show "map_of (reservations s') (r_id r) = Some r"
    unfolding s' by (rule reserver_succes_etat(1) [OF f])
  show "files s' isbn = Some ((case files s isbn of None \<Rightarrow> [] | Some q \<Rightarrow> q) @ [r_id r])"
    unfolding s' by (rule reserver_succes_etat(2) [OF f])
qed

text \<open>
  In the example library: the first member asks for the first book, which is
  available; then for the second book, for which the member is already waiting; and
  the second member joins the queue of the second book behind the first.
\<close>

theorem reserver_regle_witness:
  "reserver bibliotheque ''U-AAAAAAA1'' ''9780306406157'' ''RES-AAAAAAA9'' 0
     = (Inl Livre_deja_disponible, bibliotheque) \<and>
   reserver bibliotheque ''U-AAAAAAA1'' ''9783161484100'' ''RES-AAAAAAA9'' 0
     = (Inl Reservation_en_cours, bibliotheque) \<and>
   (\<exists>r. fst (reserver bibliotheque ''U-AAAAAAA2'' ''9783161484100'' ''RES-AAAAAAA9'' 0) = Inr r \<and>
        r_id r = ''RES-AAAAAAA9'' \<and>
        r_statut r = STATUT_EN_ATTENTE \<and>
        files (snd (reserver bibliotheque ''U-AAAAAAA2'' ''9783161484100'' ''RES-AAAAAAA9'' 0))
          ''9783161484100'' = Some [''RES-AAAAAAA2'', ''RES-AAAAAAA9''])"
proof -
  let ?i1 = "''9780306406157''" and ?i2 = "''9783161484100''"
  have w: "res_gestion_user bibliotheque" "res_gestion_livre bibliotheque"
    by (simp_all add: bibliotheque_def)
  have u: "get_utilisateur_par_matricule bibliotheque ''U-AAAAAAA1'' \<noteq> None"
    by (simp add: get_utilisateur_par_matricule_def exemple_defs)
  have l1: "get_livre bibliotheque ?i1 = Some livre_1"
    "\<exists>ex \<in> set (l_exemplaires livre_1). ex_statut ex = DISPONIBLE"
    by (simp_all add: get_livre_def exemple_defs)
  have l2: "get_livre bibliotheque ?i2 = Some livre_2"
    "\<not> (\<exists>ex \<in> set (l_exemplaires livre_2). ex_statut ex = DISPONIBLE)"
    by (simp_all add: get_livre_def exemple_defs)
  have d: "\<exists>r \<in> set (map snd (reservations bibliotheque)).
        r_matricule_user r = ''U-AAAAAAA1'' \<and> r_isbn r = ?i2 \<and>
        (r_statut r = STATUT_EN_ATTENTE \<or> r_statut r = STATUT_NOTIFIE)"
    by (simp add: exemple_defs)
  have 1: "reserver bibliotheque ''U-AAAAAAA1'' ?i1 ''RES-AAAAAAA9'' 0
     = (Inl Livre_deja_disponible, bibliotheque)"
    using reserver_regle [of bibliotheque "''U-AAAAAAA1''" ?i1 "''RES-AAAAAAA9''" 0] w u l1
    by blast
  have 2: "reserver bibliotheque ''U-AAAAAAA1'' ?i2 ''RES-AAAAAAA9'' 0
     = (Inl Reservation_en_cours, bibliotheque)"
    using reserver_regle [of bibliotheque "''U-AAAAAAA1''" ?i2 "''RES-AAAAAAA9''" 0] w u l2 d
    by blast
  let ?r = "reserver bibliotheque ''U-AAAAAAA2'' ?i2 ''RES-AAAAAAA9'' 0"
  let ?n = "\<lparr>r_id = ''RES-AAAAAAA9'', r_matricule_user = ''U-AAAAAAA2'', r_isbn = ?i2,
             r_date_reservation = 0, r_statut = STATUT_EN_ATTENTE\<rparr>"
  have f: "fst ?r = Inr ?n"
    by (simp add: reserver_def get_livre_def get_utilisateur_par_matricule_def
        est_disponible_def exemplaires_disponibles_def lister_par_user_def
        Reservation_init_def exemple_defs)
  then have e: "?r = (Inr ?n, snd ?r)" by (metis prod.collapse)
  have q: "files bibliotheque ?i2 = Some [''RES-AAAAAAA2'']"
    by (simp add: bibliotheque_def)
  from reserver_regle [of bibliotheque "''U-AAAAAAA2''" ?i2 "''RES-AAAAAAA9''" 0] e
  have "files (snd ?r) ?i2 =
          Some ((case files bibliotheque ?i2 of None \<Rightarrow> [] | Some q \<Rightarrow> q) @ [r_id ?n])"
    by blast
  then have 3: "files (snd ?r) ?i2 = Some [''RES-AAAAAAA2'', ''RES-AAAAAAA9'']"
    using q by simp
  from 1 2 f 3 show ?thesis by simp
qed

end
